(* ===== verification/Prelude.thy ===== *)
theory Prelude
  imports Main "HOL-Library.Multiset"
begin

text \<open>
  Shared vocabulary of the development: the Python exceptions the dashboard script can
  raise, the sequencing of fallible steps (an exception propagates, as Python's does),
  and the Python string operations the script relies on: \<open>str(n)\<close> for non-negative
  integers, zero padding of \<open>strftime\<close> fields, \<open>" ".join\<close> and \<open>str.split\<close>.
  The lemmas here are generic facts about these helpers that the component theories use.
\<close>

named_theorems py_simps "evaluation rules of the Python helper functions"

section \<open>Exceptions\<close>

text \<open>
  The exceptions that reach the script: \<open>OverflowError\<close> from \<open>datetime\<close> arithmetic
  (\<open>datetime.__add__\<close> with a negative \<open>timedelta\<close>), \<open>KeyError\<close> from pandas column
  selection (it carries the missing labels), and any exception raised by the external
  search call, of which the model keeps only its message.
\<close>

datatype exn =
    OverflowError
  | KeyError "string list"
  | SearchError string

type_synonym 'a py = "exn + 'a"

definition bind_exn :: "'a py \<Rightarrow> ('a \<Rightarrow> 'b py) \<Rightarrow> 'b py" where
  "bind_exn x f = (case x of Inl e \<Rightarrow> Inl e | Inr a \<Rightarrow> f a)"

lemma bind_exn_simps [simp]:
  "bind_exn (Inl e) f = Inl e"
  "bind_exn (Inr a) f = f a"
  by (simp_all add: bind_exn_def)

lemma bind_exn_eq_Inr [simp]:
  "bind_exn x f = Inr b \<longleftrightarrow> (\<exists>a. x = Inr a \<and> f a = Inr b)"
  by (cases x) auto

section \<open>Decimal rendering\<close>

definition digit_char :: "nat \<Rightarrow> char" where
  "digit_char d = char_of (48 + d)"

text \<open>Python's \<open>str(n)\<close> for \<open>n \<ge> 0\<close>: the decimal digits, most significant first.\<close>

fun str_nat :: "nat \<Rightarrow> string" where
  "str_nat n = (if n < 10 then [digit_char n] else str_nat (n div 10) @ [digit_char (n mod 10)])"

declare str_nat.simps [simp del]

text \<open>Zero padding to a minimum width, as \<open>%Y\<close>, \<open>%m\<close> and \<open>%d\<close> of \<open>strftime\<close> do.\<close>

definition zpad :: "nat \<Rightarrow> string \<Rightarrow> string" where
  "zpad w s = replicate (w - length s) (CHR ''0'') @ s"

definition is_digit :: "char \<Rightarrow> bool" where
  "is_digit c \<longleftrightarrow> 48 \<le> (of_char c :: nat) \<and> (of_char c :: nat) \<le> 57"

text \<open>Reading a digit string back (the inverse of \<open>str_nat\<close> and \<open>zpad\<close>).\<close>

definition digit_val :: "char \<Rightarrow> nat" where
  "digit_val c = of_char c - 48"

definition read_nat :: "string \<Rightarrow> nat" where
  "read_nat s = foldl (\<lambda>acc c. 10 * acc + digit_val c) 0 s"

section \<open>Joining and splitting strings\<close>

text \<open>\<open>sep.join(xs)\<close>.\<close>

fun py_join :: "string \<Rightarrow> string list \<Rightarrow> string" where
  "py_join sep [] = []"
| "py_join sep [x] = x"
| "py_join sep (x # y # zs) = x @ sep @ py_join sep (y # zs)"

text \<open>\<open>s.split(c)\<close> for a one-character separator: empty fields are kept.\<close>

fun py_split :: "char \<Rightarrow> string \<Rightarrow> string list" where
  "py_split c [] = [[]]"
| "py_split c (x # xs) =
     (if x = c then [] # py_split c xs
      else (let r = py_split c xs in (x # hd r) # tl r))"


section \<open>Lemmas on the helpers\<close>

lemma py_split_not_Nil [simp]: "py_split c s \<noteq> []"
  by (induction s) (auto simp: Let_def)

lemma py_split_no_sep: "c \<notin> set s \<Longrightarrow> py_split c s = [s]"
  by (induction s) (auto simp: Let_def)

lemma py_split_append_sep:
  "c \<notin> set x \<Longrightarrow> py_split c (x @ c # s) = x # py_split c s"
  by (induction x) (auto simp: Let_def)

theorem py_split_join:
  "xs \<noteq> [] \<Longrightarrow> \<forall>x \<in> set xs. c \<notin> set x \<Longrightarrow> py_split c (py_join [c] xs) = xs"
proof (induction "[c]" xs rule: py_join.induct)
  case 1
  then show ?case by simp
next
  case (2 x)
  then show ?case by (simp add: py_split_no_sep)
next
  case (3 x y zs)
  then show ?case by (simp add: py_split_append_sep)
qed

lemma length_py_join_Cons:
  "length (py_join sep (x # xs)) = length x + sum_list (map length xs) + length sep * length xs"
  by (induction sep "x # xs" arbitrary: x xs rule: py_join.induct) auto

lemma digit_char_is_digit: "d < 10 \<Longrightarrow> is_digit (digit_char d)"
  by (simp add: digit_char_def is_digit_def)

lemma digit_val_digit_char [simp]: "d < 10 \<Longrightarrow> digit_val (digit_char d) = d"
  by (simp add: digit_char_def digit_val_def)

lemma str_nat_digits: "\<forall>c \<in> set (str_nat n). is_digit c"
proof (induction n rule: str_nat.induct)
  case (1 n)
  then show ?case
    by (subst str_nat.simps) (auto simp: digit_char_is_digit)
qed

lemma str_nat_not_Nil [simp]: "str_nat n \<noteq> []"
  by (subst str_nat.simps) simp

lemma read_nat_snoc [simp]: "read_nat (s @ [c]) = 10 * read_nat s + digit_val c"
  by (simp add: read_nat_def)

lemma read_nat_str_nat [simp]: "read_nat (str_nat n) = n"
proof (induction n rule: str_nat.induct)
  case (1 n)
  show ?case
  proof (cases "n < 10")
    case True
    then show ?thesis by (subst str_nat.simps) (simp add: read_nat_def)
  next
    case False
    with "1" show ?thesis by (subst str_nat.simps) simp
  qed
qed

lemma length_str_nat_le: "n < 10 ^ k \<Longrightarrow> 0 < k \<Longrightarrow> length (str_nat n) \<le> k"
proof (induction n arbitrary: k rule: str_nat.induct)
  case (1 n)
  show ?case
  proof (cases "n < 10")
    case True
    with "1.prems" show ?thesis by (subst str_nat.simps) simp
  next
    case False
    then obtain k' where k: "k = Suc k'" "0 < k'"
      using "1.prems" by (cases k; cases "k - 1") (auto simp: not_less)
    with "1.prems" have "n div 10 < 10 ^ k'" by (simp add: less_mult_imp_div_less mult.commute)
    with False k "1.IH" show ?thesis by (subst str_nat.simps) simp
  qed
qed

lemma read_nat_zeros [simp]: "read_nat (replicate k (CHR ''0'') @ s) = read_nat s"
  by (induction k) (simp_all add: read_nat_def digit_val_def)

lemma read_nat_zpad [simp]: "read_nat (zpad w s) = read_nat s"
  by (simp add: zpad_def)

lemma length_zpad: "length s \<le> w \<Longrightarrow> length (zpad w s) = w"
  by (simp add: zpad_def)

section \<open>Evaluation on literals\<close>

text \<open>Rules that let \<open>simp\<close> render concrete numbers: digits one by one, numerals by their last digit.\<close>

lemma str_nat_numeral [py_simps]:
  "str_nat (numeral k) = (if numeral k < (10::nat) then [digit_char (numeral k)]
     else str_nat (numeral k div 10) @ [digit_char (numeral k mod 10)])"
  by (rule str_nat.simps)

lemma str_nat_small [py_simps]: "n < 10 \<Longrightarrow> str_nat n = [digit_char n]"
  by (simp add: str_nat.simps)

lemma digit_char_simps [py_simps]:
  "digit_char 0 = CHR ''0''" "digit_char (Suc 0) = CHR ''1''" "digit_char 2 = CHR ''2''"
  "digit_char 3 = CHR ''3''" "digit_char 4 = CHR ''4''" "digit_char 5 = CHR ''5''"
  "digit_char 6 = CHR ''6''" "digit_char 7 = CHR ''7''" "digit_char 8 = CHR ''8''" "digit_char 9 = CHR ''9''"
  by code_simp+

end
