(* ===== verification/Calendar.thy ===== *)
theory Calendar
  imports Prelude
begin

text \<open>
  The calendar arithmetic of Python's \<open>datetime\<close> module that the time-span filter of
  \<open>src/app.py\<close> (lines 16--36) relies on: \<open>end_date - timedelta(days=k)\<close> converts
  the date to its proleptic Gregorian ordinal (\<open>_ymd2ord\<close>), subtracts, and converts
  back (\<open>_ord2ymd\<close>), raising \<open>OverflowError\<close> outside \<open>1 .. _MAXORDINAL\<close>;
  \<open>strftime('%Y%m%d')\<close> renders the date part.  The functions follow CPython's
  pure-Python implementation (\<open>Lib/_pydatetime.py\<close>) operation by operation, with
  Python's floor \<open>//\<close> and \<open>%\<close> as \<open>div\<close> and \<open>mod\<close> on \<open>int\<close>.
  The main result is the round trip \<open>_ymd2ord (_ord2ymd n) = n\<close> for every \<open>n\<close>,
  proved by splitting \<open>n - 1\<close> into 400-, 100-, 4- and 1-year cycles as the code does.
\<close>

section \<open>Ordinal arithmetic\<close>

definition MINYEAR :: int where "MINYEAR = 1"
definition MAXYEAR :: int where "MAXYEAR = 9999"
definition MAXORDINAL :: int where "MAXORDINAL = 3652059"

definition DAYS_IN_MONTH :: "int list" where
  "DAYS_IN_MONTH = [-1, 31, 28, 31, 30, 31, 30, 31, 31, 30, 31, 30, 31]"

definition DAYS_BEFORE_MONTH :: "int list" where
  "DAYS_BEFORE_MONTH = [-1, 0, 31, 59, 90, 120, 151, 181, 212, 243, 273, 304, 334]"

definition is_leap :: "int \<Rightarrow> bool" where
  "is_leap year \<longleftrightarrow> year mod 4 = 0 \<and> (year mod 100 \<noteq> 0 \<or> year mod 400 = 0)"

definition days_before_year :: "int \<Rightarrow> int" where
  "days_before_year year = (let y = year - 1 in y * 365 + y div 4 - y div 100 + y div 400)"

definition days_in_month :: "int \<Rightarrow> int \<Rightarrow> int" where
  "days_in_month year month =
     (if month = 2 \<and> is_leap year then 29 else DAYS_IN_MONTH ! nat month)"

definition days_before_month :: "int \<Rightarrow> int \<Rightarrow> int" where
  "days_before_month year month =
     DAYS_BEFORE_MONTH ! nat month + (if month > 2 \<and> is_leap year then 1 else 0)"

definition ymd2ord :: "int \<Rightarrow> int \<Rightarrow> int \<Rightarrow> int" where
  "ymd2ord year month day = days_before_year year + days_before_month year month + day"

definition DI400Y :: int where "DI400Y = days_before_year 401"
definition DI100Y :: int where "DI100Y = days_before_year 101"
definition DI4Y :: int where "DI4Y = days_before_year 5"

definition ord2ymd :: "int \<Rightarrow> int \<times> int \<times> int" where
  "ord2ymd n0 =
     (let n = n0 - 1;
          n400 = n div DI400Y; n = n mod DI400Y;
          year = n400 * 400 + 1;
          n100 = n div DI100Y; n = n mod DI100Y;
          n4 = n div DI4Y; n = n mod DI4Y;
          n1 = n div 365; n = n mod 365;
          year = year + n100 * 100 + n4 * 4 + n1
      in if n1 = 4 \<or> n100 = 4 then (year - 1, 12, 31)
         else
           (let leapyear = (n1 = 3 \<and> (n4 \<noteq> 24 \<or> n100 = 3));
                month = drop_bit 5 (n + 50);
                preceding = DAYS_BEFORE_MONTH ! nat month + (if month > 2 \<and> leapyear then 1 else 0)
            in if preceding > n
               then (let month = month - 1;
                         preceding = preceding - (DAYS_IN_MONTH ! nat month + (if month = 2 \<and> leapyear then 1 else 0))
                     in (year, month, n - preceding + 1))
               else (year, month, n - preceding + 1)))"

section \<open>Dates and datetimes\<close>

text \<open>\<open>date\<close> and its subclass \<open>datetime\<close> (naive: no \<open>tzinfo\<close>).\<close>

record date =
  year :: int
  month :: int
  day :: int

record datetime = date +
  hour :: int
  minute :: int
  second :: int
  microsecond :: int

type_synonym time = "int \<times> int \<times> int \<times> int"

text \<open>\<open>_check_date_fields\<close>: the invariant every \<open>date\<close> object satisfies.\<close>

definition date_valid :: "'a date_scheme \<Rightarrow> bool" where
  "date_valid d \<longleftrightarrow> MINYEAR \<le> year d \<and> year d \<le> MAXYEAR \<and> 1 \<le> month d \<and> month d \<le> 12
     \<and> 1 \<le> day d \<and> day d \<le> days_in_month (year d) (month d)"

definition toordinal :: "'a date_scheme \<Rightarrow> int" where
  "toordinal d = ymd2ord (year d) (month d) (day d)"

definition fromordinal :: "int \<Rightarrow> date" where
  "fromordinal n = (case ord2ymd n of (y, m, d) \<Rightarrow> \<lparr>year = y, month = m, day = d\<rparr>)"

definition time_min :: time where "time_min = (0, 0, 0, 0)"
definition time_max :: time where "time_max = (23, 59, 59, 999999)"

definition time_of :: "datetime \<Rightarrow> time" where
  "time_of dt = (hour dt, minute dt, second dt, microsecond dt)"

text \<open>\<open>datetime.combine(d, t)\<close>.\<close>

definition combine :: "'a date_scheme \<Rightarrow> time \<Rightarrow> datetime" where
  "combine d t = (case t of (h, mi, s, us) \<Rightarrow>
     \<lparr>year = year d, month = month d, day = day d, hour = h, minute = mi, second = s, microsecond = us\<rparr>)"

text \<open>\<open>dt.date()\<close>: what \<open>st.date_input\<close> keeps of a \<open>datetime\<close> default.\<close>

definition date_of :: "'a date_scheme \<Rightarrow> date" where
  "date_of d = \<lparr>year = year d, month = month d, day = day d\<rparr>"

text \<open>
  \<open>dt - timedelta(days=k)\<close>, i.e. \<open>datetime.__add__\<close> with \<open>timedelta(days=-k)\<close>:
  the time of day is kept, the ordinal moves by \<open>k\<close>, and a result outside
  \<open>0 < days \<le> _MAXORDINAL\<close> raises \<open>OverflowError\<close>.
\<close>

definition dt_sub_days :: "datetime \<Rightarrow> int \<Rightarrow> datetime py" where
  "dt_sub_days dt k =
     (let days = toordinal dt - k in
      if 0 < days \<and> days \<le> MAXORDINAL then Inr (combine (fromordinal days) (time_of dt))
      else Inl OverflowError)"

text \<open>\<open>strftime('%Y%m%d')\<close>: year, month and day in decimal, zero-padded to 4, 2 and 2.\<close>

definition strftime_Ymd :: "'a date_scheme \<Rightarrow> string" where
  "strftime_Ymd d =
     zpad 4 (str_nat (nat (year d))) @ zpad 2 (str_nat (nat (month d))) @ zpad 2 (str_nat (nat (day d)))"

section \<open>The ordinal round trip\<close>

lemma DI_vals: "DI400Y = 146097" "DI100Y = 36524" "DI4Y = 1461"
  by (simp_all add: DI400Y_def DI100Y_def DI4Y_def days_before_year_def)

lemma div_shift: "0 < (k::int) \<Longrightarrow> (x + k * m) div k = x div k + m"
  by simp


lemma mod_shift: "0 < (k::int) \<Longrightarrow> (x + k * m) mod k = x mod k"
  by simp

lemma days_before_year_shift: "days_before_year (y + 400 * q) = days_before_year y + 146097 * q"
proof -
  have "(y - 1 + 4 * (100 * q)) div 4 = (y - 1) div 4 + 100 * q"
    by (rule div_shift) simp
  moreover have "(y - 1 + 100 * (4 * q)) div 100 = (y - 1) div 100 + 4 * q"
    by (rule div_shift) simp
  moreover have "(y - 1 + 400 * q) div 400 = (y - 1) div 400 + q"
    by (rule div_shift) simp
  ultimately show ?thesis
    by (simp add: days_before_year_def Let_def algebra_simps)
qed

lemma is_leap_shift: "is_leap (y + 400 * q) = is_leap y"
proof -
  have "(y + 4 * (100 * q)) mod 4 = y mod 4"
    by (rule mod_shift) simp
  moreover have "(y + 100 * (4 * q)) mod 100 = y mod 100"
    by (rule mod_shift) simp
  moreover have "(y + 400 * q) mod 400 = y mod 400"
    by (rule mod_shift) simp
  ultimately show ?thesis
    by (simp add: is_leap_def algebra_simps)
qed

lemma days_before_year_cycle:
  assumes "0 \<le> a" "a \<le> 3" "0 \<le> b" "b \<le> 24" "0 \<le> c" "c \<le> 3"
  shows "days_before_year (1 + 100 * a + 4 * b + c) = 36524 * a + 1461 * b + 365 * c"
proof -
  have "(c + 4 * (25 * a + b)) div 4 = c div 4 + (25 * a + b)"
    by (rule div_shift) simp
  moreover have "c div 4 = 0"
    using assms by simp
  moreover have "(4 * b + c + 100 * a) div 100 = (4 * b + c) div 100 + a"
    by (rule div_shift) simp
  moreover have "(4 * b + c) div 100 = 0"
    using assms by simp
  moreover have "(100 * a + 4 * b + c) div 400 = 0"
    using assms by simp
  ultimately show ?thesis
    by (simp add: days_before_year_def Let_def algebra_simps)
qed

lemma mod_small: "0 \<le> (x::int) \<Longrightarrow> x < k \<Longrightarrow> x mod k = x"
  by simp

lemma is_leap_cycle:
  assumes "0 \<le> a" "a \<le> 3" "0 \<le> b" "b \<le> 24" "0 \<le> c" "c \<le> 3"
  shows "is_leap (1 + 100 * a + 4 * b + c) \<longleftrightarrow> c = 3 \<and> (b \<noteq> 24 \<or> a = 3)"
proof -
  let ?y = "1 + 100 * a + 4 * b + c"
  have m4: "?y mod 4 = (1 + c) mod 4"
    using mod_shift[of 4 "1 + c" "25 * a + b"] by (simp add: algebra_simps)
  have c4: "(1 + c) mod 4 = 0 \<longleftrightarrow> c = 3"
  proof (cases "c = 3")
    case False
    then have "1 + c < 4" using assms by simp
    with assms show ?thesis using mod_small[of "1 + c" 4] by simp
  qed simp
  show ?thesis
  proof (cases "c = 3")
    case False
    with m4 c4 show ?thesis by (simp add: is_leap_def)
  next
    case True
    then have y: "?y = (4 * b + 4) + 100 * a" by simp
    have m100: "?y mod 100 = (4 * b + 4) mod 100"
      unfolding y by (rule mod_shift) simp
    have b100: "(4 * b + 4) mod 100 = 0 \<longleftrightarrow> b = 24"
    proof (cases "b = 24")
      case False
      then have "4 * b + 4 < 100" using assms by simp
      with assms show ?thesis using mod_small[of "4 * b + 4" 100] by simp
    qed simp
    have m400: "?y mod 400 = 0 \<longleftrightarrow> a = 3" if "b = 24"
    proof (cases "a = 3")
      case False
      then have "?y < 400" "0 \<le> ?y" using assms that True by simp_all
      moreover have "?y \<noteq> 0" using assms by simp
      ultimately show ?thesis using mod_small[of ?y 400] \<open>a \<noteq> 3\<close> by simp
    qed (use that True in simp)
    show ?thesis
      using True m4 c4 m100 b100 m400 by (auto simp: is_leap_def)
  qed
qed

lemma month_cases_12:
  "1 \<le> (m::int) \<Longrightarrow> m \<le> 12 \<Longrightarrow>
   m = 1 \<or> m = 2 \<or> m = 3 \<or> m = 4 \<or> m = 5 \<or> m = 6 \<or> m = 7 \<or> m = 8 \<or> m = 9 \<or> m = 10 \<or> m = 11 \<or> m = 12"
  by presburger

lemma month_estimate_range:
  assumes "0 \<le> e" "e < 365"
  shows "1 \<le> drop_bit 5 (e + 50) \<and> drop_bit 5 (e + 50) \<le> (12::int)"
proof -
  have "(32::int) div 32 \<le> (e + 50) div 32" "(e + 50) div 32 \<le> (414::int) div 32"
    using assms by (simp_all add: zdiv_mono1)
  then show ?thesis by (simp add: drop_bit_eq_div)
qed

lemma month_back:
  assumes "1 \<le> m" "m \<le> 12" "0 \<le> e"
    and "DAYS_BEFORE_MONTH ! nat m + (if m > 2 \<and> L then 1 else 0) > e"
  shows "2 \<le> m"
    and "DAYS_BEFORE_MONTH ! nat m + (if m > 2 \<and> L then 1 else 0)
           - (DAYS_IN_MONTH ! nat (m - 1) + (if m - 1 = 2 \<and> L then 1 else 0))
         = DAYS_BEFORE_MONTH ! nat (m - 1) + (if m - 1 > 2 \<and> L then 1 else 0)"
proof -
  have "m = 1 \<or> m = 2 \<or> m = 3 \<or> m = 4 \<or> m = 5 \<or> m = 6 \<or> m = 7 \<or> m = 8 \<or> m = 9 \<or> m = 10 \<or> m = 11 \<or> m = 12"
    using assms(1,2) by (rule month_cases_12)
  then show "2 \<le> m"
    and "DAYS_BEFORE_MONTH ! nat m + (if m > 2 \<and> L then 1 else 0)
           - (DAYS_IN_MONTH ! nat (m - 1) + (if m - 1 = 2 \<and> L then 1 else 0))
         = DAYS_BEFORE_MONTH ! nat (m - 1) + (if m - 1 > 2 \<and> L then 1 else 0)"
    using assms(3,4) by (auto simp: DAYS_BEFORE_MONTH_def DAYS_IN_MONTH_def)
qed



lemma ord2ymd_split:
  assumes "q = (n - 1) div 146097" "r = (n - 1) mod 146097"
    "a = r div 36524" "r1 = r mod 36524" "b = r1 div 1461" "r2 = r1 mod 1461"
    "c = r2 div 365" "e = r2 mod 365"
  shows "ord2ymd n =
    (let year = q * 400 + 1 + a * 100 + b * 4 + c in
     if c = 4 \<or> a = 4 then (year - 1, 12, 31)
     else (let L = (c = 3 \<and> (b \<noteq> 24 \<or> a = 3)); month = drop_bit 5 (e + 50);
               p = DAYS_BEFORE_MONTH ! nat month + (if month > 2 \<and> L then 1 else 0)
           in if p > e
              then (year, month - 1,
                    e - (p - (DAYS_IN_MONTH ! nat (month - 1) + (if month - 1 = 2 \<and> L then 1 else 0))) + 1)
              else (year, month, e - p + 1)))"
  unfolding ord2ymd_def DI_vals Let_def assms by simp


lemma ymd2ord_dec31: "ymd2ord y 12 31 = days_before_year y + 365 + (if is_leap y then 1 else 0)"
  by (simp add: ymd2ord_def days_before_month_def DAYS_BEFORE_MONTH_def)

theorem ymd2ord_ord2ymd:
  assumes res: "ord2ymd n = (y, m, d)"
  shows "ymd2ord y m d = n"
proof -
  define q where "q = (n - 1) div 146097"
  define r where "r = (n - 1) mod 146097"
  define a where "a = r div 36524"
  define r1 where "r1 = r mod 36524"
  define b where "b = r1 div 1461"
  define r2 where "r2 = r1 mod 1461"
  define c where "c = r2 div 365"
  define e where "e = r2 mod 365"
  note sp = ord2ymd_split[OF q_def r_def a_def r1_def b_def r2_def c_def e_def]
  have dec: "n - 1 = 146097 * q + r" "r = 36524 * a + r1" "r1 = 1461 * b + r2" "r2 = 365 * c + e"
    by (simp_all add: q_def r_def a_def r1_def b_def r2_def c_def e_def)
  have rng: "0 \<le> r" "r < 146097" "0 \<le> r1" "r1 < 36524" "0 \<le> r2" "r2 < 1461" "0 \<le> e" "e < 365"
    by (simp_all add: r_def r1_def r2_def e_def)
  have ab: "0 \<le> a" "a \<le> 4" "0 \<le> b" "b \<le> 24" "0 \<le> c" "c \<le> 4"
    using dec rng by linarith+
  show ?thesis
  proof (cases "c = 4 \<or> a = 4")
    case True
    with sp res have y: "y = q * 400 + a * 100 + b * 4 + c" and md: "m = 12" "d = 31"
      by (simp_all add: Let_def)
    show ?thesis
    proof (cases "a = 4")
      case True
      with dec rng ab have "b = 0" "c = 0" "r = 146096" by linarith+
      with y True have "y = 400 + 400 * q" by simp
      moreover have "days_before_year 400 = 145731" "is_leap 400"
        by (simp_all add: days_before_year_def is_leap_def)
      ultimately show ?thesis
        using dec md \<open>r = 146096\<close> by (simp add: ymd2ord_dec31 days_before_year_shift is_leap_shift)
    next
      case False
      with \<open>c = 4 \<or> a = 4\<close> have "c = 4" by simp
      with dec rng ab False have "b \<le> 23" "a \<le> 3" "e = 0" by linarith+
      have "y = (1 + 100 * a + 4 * b + 3) + 400 * q"
        using y \<open>c = 4\<close> by simp
      moreover have "days_before_year (1 + 100 * a + 4 * b + 3) = 36524 * a + 1461 * b + 365 * 3"
        using ab \<open>a \<le> 3\<close> by (intro days_before_year_cycle) simp_all
      moreover have "is_leap (1 + 100 * a + 4 * b + 3)"
        using ab \<open>a \<le> 3\<close> \<open>b \<le> 23\<close> by (subst is_leap_cycle) simp_all
      ultimately show ?thesis
        using dec md \<open>c = 4\<close> \<open>e = 0\<close>
        by (simp add: ymd2ord_dec31 days_before_year_shift is_leap_shift)
    qed
  next
    case False
    then have a3: "a \<le> 3" and c3: "c \<le> 3" using ab by auto
    define L where "L = (c = 3 \<and> (b \<noteq> 24 \<or> a = 3))"
    define mo where "mo = drop_bit 5 (e + 50)"
    define p where "p = DAYS_BEFORE_MONTH ! nat mo + (if mo > 2 \<and> L then 1 else 0)"
    have Y: "q * 400 + 1 + a * 100 + b * 4 + c = (1 + 100 * a + 4 * b + c) + 400 * q"
      by simp
    have leap: "is_leap (q * 400 + 1 + a * 100 + b * 4 + c) = L"
      unfolding Y is_leap_shift L_def using ab a3 c3 by (intro is_leap_cycle) simp_all
    have dby: "days_before_year (q * 400 + 1 + a * 100 + b * 4 + c) = 146097 * q + 36524 * a + 1461 * b + 365 * c"
      unfolding Y days_before_year_shift using ab a3 c3 days_before_year_cycle[of a b c] by simp
    have mo_rng: "1 \<le> mo" "mo \<le> 12"
      using month_estimate_range[of e] rng by (simp_all add: mo_def)
    have sp': "ord2ymd n = (if p > e
              then (q * 400 + 1 + a * 100 + b * 4 + c, mo - 1,
                    e - (p - (DAYS_IN_MONTH ! nat (mo - 1) + (if mo - 1 = 2 \<and> L then 1 else 0))) + 1)
              else (q * 400 + 1 + a * 100 + b * 4 + c, mo, e - p + 1))"
      using sp False by (simp add: Let_def L_def mo_def p_def)
    show ?thesis
    proof (cases "p > e")
      case True
      with sp' res have "y = q * 400 + 1 + a * 100 + b * 4 + c" "m = mo - 1"
        "d = e - (p - (DAYS_IN_MONTH ! nat (mo - 1) + (if mo - 1 = 2 \<and> L then 1 else 0))) + 1"
        by simp_all
      moreover have "2 \<le> mo"
        "p - (DAYS_IN_MONTH ! nat (mo - 1) + (if mo - 1 = 2 \<and> L then 1 else 0))
         = DAYS_BEFORE_MONTH ! nat (mo - 1) + (if mo - 1 > 2 \<and> L then 1 else 0)"
        using month_back[of mo e L] mo_rng rng True by (simp_all add: p_def)
      ultimately show ?thesis
        using dec leap dby by (simp add: ymd2ord_def days_before_month_def)
    next
      case False
      with sp' res have "y = q * 400 + 1 + a * 100 + b * 4 + c" "m = mo" "d = e - p + 1"
        by simp_all
      then show ?thesis
        using dec leap dby by (simp add: ymd2ord_def days_before_month_def p_def)
    qed
  qed
qed


section \<open>Subtracting days\<close>

lemma toordinal_fromordinal [simp]: "toordinal (fromordinal n) = n"
  using ymd2ord_ord2ymd[of n] by (simp add: toordinal_def fromordinal_def split: prod.splits)

lemma toordinal_combine [simp]: "toordinal (combine d t) = toordinal d"
  by (simp add: toordinal_def combine_def split: prod.splits)

lemma time_of_combine [simp]: "time_of (combine d t) = t"
  by (simp add: time_of_def combine_def split: prod.splits)

lemma date_of_combine [simp]: "date_of (combine d t) = date_of d"
  by (simp add: date_of_def combine_def split: prod.splits)

lemma strftime_Ymd_date_of [simp]: "strftime_Ymd (date_of d) = strftime_Ymd d"
  by (simp add: strftime_Ymd_def date_of_def)

lemma strftime_Ymd_combine [simp]: "strftime_Ymd (combine d t) = strftime_Ymd d"
  by (simp add: strftime_Ymd_def combine_def split: prod.splits)

text \<open>
  C13: \<open>dt - timedelta(days=k)\<close> returns exactly when the target ordinal is in range, and then
  it is the datetime \<open>k\<close> days earlier at the same time of day; otherwise it raises
  \<open>OverflowError\<close>.
\<close>

theorem dt_sub_days_returns:
  "((\<exists>r. dt_sub_days dt k = Inr r \<and> toordinal r = toordinal dt - k \<and> time_of r = time_of dt)
    \<longleftrightarrow> 0 < toordinal dt - k \<and> toordinal dt - k \<le> MAXORDINAL)
   \<and> (dt_sub_days dt k = Inl OverflowError \<longleftrightarrow> \<not> (0 < toordinal dt - k \<and> toordinal dt - k \<le> MAXORDINAL))"
  by (simp add: dt_sub_days_def Let_def)

lemma dt_sub_days_Inr:
  "dt_sub_days dt k = Inr r \<Longrightarrow> toordinal r = toordinal dt - k \<and> time_of r = time_of dt"
  by (auto simp add: dt_sub_days_def Let_def split: if_splits)

lemma dt_sub_days_Inl:
  "dt_sub_days dt k = Inl e \<longleftrightarrow> e = OverflowError \<and> \<not> (0 < toordinal dt - k \<and> toordinal dt - k \<le> MAXORDINAL)"
  by (auto simp add: dt_sub_days_def Let_def)


section \<open>Ordinal bounds of valid dates\<close>

lemma div_succ:
  assumes "1 < (k::int)"
  shows "y div k = (y - 1) div k + (if y mod k = 0 then 1 else 0)"
proof -
  define q where "q = (y - 1) div k"
  define r where "r = (y - 1) mod k"
  have "k * q + r = y - 1"
    unfolding q_def r_def by (rule mult_div_mod_eq)
  then have y: "y = (r + 1) + k * q"
    by linarith
  have r: "0 \<le> r" "r < k"
    using assms by (simp_all add: r_def)
  show ?thesis
  proof (cases "r + 1 = k")
    case True
    then have "y = 0 + k * (q + 1)"
      using y by (simp add: algebra_simps)
    then show ?thesis
      using assms div_shift[of k 0 "q + 1"] mod_shift[of k 0 "q + 1"] by (simp add: q_def)
  next
    case False
    then have "(r + 1) div k = 0" "(r + 1) mod k = r + 1"
      using r by simp_all
    then show ?thesis
      using assms y div_shift[of k "r + 1" q] mod_shift[of k "r + 1" q] r by (simp add: q_def)
  qed
qed

lemma mod_100_mod_4: "(y::int) mod 100 = 0 \<Longrightarrow> y mod 4 = 0"
proof -
  assume "y mod 100 = 0"
  then have "(4::int) dvd y"
    using dvd_trans[of 4 100 y] by (simp add: mod_eq_0_iff_dvd)
  then show ?thesis by simp
qed

lemma mod_400_mod_100: "(y::int) mod 400 = 0 \<Longrightarrow> y mod 100 = 0"
proof -
  assume "y mod 400 = 0"
  then have "(100::int) dvd y"
    using dvd_trans[of 100 400 y] by (simp add: mod_eq_0_iff_dvd)
  then show ?thesis by simp
qed

lemma leap_indicator:
  "(if y mod 4 = 0 then 1 else 0) - (if y mod 100 = 0 then 1 else 0) + (if y mod 400 = 0 then 1 else 0)
   = (if is_leap y then 1 else (0::int))"
proof (cases "y mod 400 = 0")
  case True
  then show ?thesis using mod_400_mod_100[OF True] mod_100_mod_4[of y] by (simp add: is_leap_def)
next
  case n400: False
  show ?thesis
  proof (cases "y mod 100 = 0")
    case True
    then show ?thesis using n400 mod_100_mod_4[OF True] by (simp add: is_leap_def)
  next
    case False
    then show ?thesis using n400 by (simp add: is_leap_def)
  qed
qed

lemma days_before_year_succ:
  "days_before_year (y + 1) = days_before_year y + 365 + (if is_leap y then 1 else 0)"
proof -
  define a4 a100 a400 where "a4 = (if y mod 4 = 0 then 1 else (0::int))"
    and "a100 = (if y mod 100 = 0 then 1 else (0::int))"
    and "a400 = (if y mod 400 = 0 then 1 else (0::int))"
  have d: "y div 4 = (y - 1) div 4 + a4" "y div 100 = (y - 1) div 100 + a100"
    "y div 400 = (y - 1) div 400 + a400"
    unfolding a4_def a100_def a400_def by (rule div_succ; simp)+
  have "days_before_year (y + 1) = y * 365 + y div 4 - y div 100 + y div 400"
    by (simp add: days_before_year_def)
  also have "\<dots> = days_before_year y + 365 + (a4 - a100 + a400)"
  proof -
    have "days_before_year y = (y - 1) * 365 + (y - 1) div 4 - (y - 1) div 100 + (y - 1) div 400"
      by (simp add: days_before_year_def Let_def)
    moreover have "y * 365 = (y - 1) * 365 + 365"
      by (simp add: algebra_simps)
    ultimately show ?thesis
      unfolding d by linarith
  qed
  also have "a4 - a100 + a400 = (if is_leap y then 1 else 0)"
    unfolding a4_def a100_def a400_def by (rule leap_indicator)
  finally show ?thesis .
qed

lemma days_before_year_mono_nat: "days_before_year y \<le> days_before_year (y + int k)"
proof (induction k)
  case 0
  then show ?case by simp
next
  case (Suc k)
  have eq: "y + int (Suc k) = (y + int k) + 1" by simp
  have "days_before_year (y + int k) \<le> days_before_year ((y + int k) + 1)"
    by (simp only: days_before_year_succ) simp
  with Suc show ?case unfolding eq by linarith
qed

lemma days_before_year_mono: "y \<le> y' \<Longrightarrow> days_before_year y \<le> days_before_year y'"
  using days_before_year_mono_nat[of y "nat (y' - y)"] by simp

lemma days_before_month_bounds:
  assumes "1 \<le> m" "m \<le> 12"
  shows "0 \<le> days_before_month y m"
    and "days_before_month y m + days_in_month y m \<le> days_before_year (y + 1) - days_before_year y"
  using month_cases_12[OF assms]
  by (auto simp: days_before_month_def days_in_month_def days_before_year_succ
                 DAYS_BEFORE_MONTH_def DAYS_IN_MONTH_def)

text \<open>Every valid date has an ordinal in \<open>1 .. _MAXORDINAL\<close>.\<close>

theorem toordinal_range:
  assumes "date_valid d"
  shows "1 \<le> toordinal d \<and> toordinal d \<le> MAXORDINAL"
proof -
  from assms have y: "1 \<le> year d" "year d \<le> 9999" and m: "1 \<le> month d" "month d \<le> 12"
    and dd: "1 \<le> day d" "day d \<le> days_in_month (year d) (month d)"
    by (simp_all add: date_valid_def MINYEAR_def MAXYEAR_def)
  have lo: "days_before_year 1 \<le> days_before_year (year d)"
    using y by (intro days_before_year_mono) simp
  have hi: "days_before_year (year d + 1) \<le> days_before_year 10000"
    using y by (intro days_before_year_mono) simp
  have "days_before_year 1 = 0" "days_before_year 10000 = 3652059"
    by (simp_all add: days_before_year_def)
  with lo hi dd days_before_month_bounds[OF m, of "year d"] show ?thesis
    by (simp add: toordinal_def ymd2ord_def MAXORDINAL_def)
qed

section \<open>The \<open>%Y%m%d\<close> rendering\<close>

lemma days_in_month_le_31: "1 \<le> m \<Longrightarrow> m \<le> 12 \<Longrightarrow> days_in_month y m \<le> 31"
  using month_cases_12[of m] by (auto simp: days_in_month_def DAYS_IN_MONTH_def)

lemma zpad_str_nat:
  assumes "n < 10 ^ w" "0 < w"
  shows "length (zpad w (str_nat n)) = w" "\<forall>c \<in> set (zpad w (str_nat n)). is_digit c"
    "read_nat (zpad w (str_nat n)) = n"
  using assms length_str_nat_le[OF assms] str_nat_digits[of n]
  by (auto simp: length_zpad zpad_def is_digit_def)

text \<open>
  C14: For a valid date, \<open>strftime('%Y%m%d')\<close> is eight decimal digits from which the year,
  the month and the day are read back.
\<close>

theorem strftime_Ymd_format:
  assumes "date_valid d"
  shows "length (strftime_Ymd d) = 8 \<and> (\<forall>c \<in> set (strftime_Ymd d). is_digit c)
         \<and> int (read_nat (take 4 (strftime_Ymd d))) = year d
         \<and> int (read_nat (take 2 (drop 4 (strftime_Ymd d)))) = month d
         \<and> int (read_nat (drop 6 (strftime_Ymd d))) = day d"
proof -
  have v: "1 \<le> year d" "year d \<le> 9999" "1 \<le> month d" "month d \<le> 12" "1 \<le> day d"
    "day d \<le> days_in_month (year d) (month d)"
    using assms by (simp_all add: date_valid_def MINYEAR_def MAXYEAR_def)
  then have "day d \<le> 31" using days_in_month_le_31[of "month d" "year d"] by simp
  then have b: "nat (year d) < 10 ^ 4" "nat (month d) < 10 ^ 2" "nat (day d) < 10 ^ 2"
    using v by simp_all
  note Y = zpad_str_nat[OF b(1)] and M = zpad_str_nat[OF b(2)] and D = zpad_str_nat[OF b(3)]
  show ?thesis
    using Y M D v by (auto simp: strftime_Ymd_def)
qed

lemma dt_sub_days_valid:
  assumes "date_valid now" "0 \<le> k" "k < toordinal now"
  obtains s where "dt_sub_days now k = Inr s" "toordinal s = toordinal now - k" "time_of s = time_of now"
proof -
  have "toordinal now - k \<le> MAXORDINAL"
    using toordinal_range[OF assms(1)] assms(2) by simp
  with assms(3) show ?thesis
    using that by (simp add: dt_sub_days_def Let_def)
qed

lemmas calendar_eval = date_valid_def MINYEAR_def MAXYEAR_def MAXORDINAL_def days_in_month_def
  DAYS_IN_MONTH_def is_leap_def toordinal_def ymd2ord_def days_before_year_def days_before_month_def
  DAYS_BEFORE_MONTH_def fromordinal_def ord2ymd_def DI400Y_def DI100Y_def DI4Y_def time_of_def
  combine_def date_of_def dt_sub_days_def strftime_Ymd_def zpad_def drop_bit_eq_div time_min_def time_max_def

theorem strftime_Ymd_format_witness:
  "date_valid \<lparr>year = 2024, month = 3, day = 31\<rparr> \<and> length (strftime_Ymd \<lparr>year = 2024, month = 3, day = 31\<rparr>) = 8
   \<and> list_all is_digit (strftime_Ymd \<lparr>year = 2024, month = 3, day = 31\<rparr>)
   \<and> int (read_nat (take 4 (strftime_Ymd \<lparr>year = 2024, month = 3, day = 31\<rparr>))) = year \<lparr>year = 2024, month = 3, day = 31\<rparr>
   \<and> int (read_nat (take 2 (drop 4 (strftime_Ymd \<lparr>year = 2024, month = 3, day = 31\<rparr>)))) = month \<lparr>year = 2024, month = 3, day = 31\<rparr>
   \<and> int (read_nat (drop 6 (strftime_Ymd \<lparr>year = 2024, month = 3, day = 31\<rparr>))) = day \<lparr>year = 2024, month = 3, day = 31\<rparr>"
proof -
  have h: "date_valid \<lparr>year = 2024, month = 3, day = 31\<rparr>" by (simp add: calendar_eval)
  show ?thesis using strftime_Ymd_format[OF h] h unfolding list_all_iff by blast
qed

end
