(* ===== verification/Frame.thy ===== *)
theory Frame
  imports Prelude
begin

text \<open>
  The part of pandas that \<open>src/app.py\<close> uses on the fetched result (lines 91--114): a
  \<open>DataFrame\<close> as its column labels and its rows of cells, \<open>df.empty\<close>, \<open>len(df)\<close>,
  column selection \<open>df[cols]\<close> (which raises \<open>KeyError\<close> naming the missing labels),
  \<open>df.rename(columns=...)\<close>, \<open>df[c]\<close> and \<open>Series.value_counts()\<close> with its defaults
  (missing values dropped, counts in descending order).  Cells are opaque values or the
  missing value \<open>NaN\<close>.  The display pipeline of the script (select the nine GDELT
  columns, rename them) is defined here as well, since it is a pure frame transformation.
\<close>

section \<open>Frames\<close>

datatype cell = Val string | NaN

record frame =
  columns :: "string list"
  rows :: "cell list list"

text \<open>A well-formed frame: distinct labels, every row as long as the header.\<close>

definition frame_wf :: "frame \<Rightarrow> bool" where
  "frame_wf f \<longleftrightarrow> distinct (columns f) \<and> list_all (\<lambda>r. length r = length (columns f)) (rows f)"

text \<open>\<open>len(df)\<close> counts rows; \<open>df.empty\<close> holds when either axis has length 0.\<close>

definition frame_len :: "frame \<Rightarrow> nat" where
  "frame_len f = length (rows f)"

definition frame_empty :: "frame \<Rightarrow> bool" where
  "frame_empty f \<longleftrightarrow> columns f = [] \<or> rows f = []"

fun col_pos :: "string list \<Rightarrow> string \<Rightarrow> nat" where
  "col_pos [] c = 0"
| "col_pos (x # xs) c = (if x = c then 0 else Suc (col_pos xs c))"

text \<open>\<open>df[cols]\<close> with a list of labels.\<close>

definition select_columns :: "string list \<Rightarrow> frame \<Rightarrow> frame py" where
  "select_columns cols f =
     (let missing = filter (\<lambda>c. c \<notin> set (columns f)) cols in
      if missing \<noteq> [] then Inl (KeyError missing)
      else Inr \<lparr>columns = cols, rows = map (\<lambda>r. map (\<lambda>c. r ! col_pos (columns f) c) cols) (rows f)\<rparr>)"

text \<open>\<open>df.rename(columns=m)\<close>: labels found in \<open>m\<close> are replaced, others kept.\<close>

definition rename_label :: "(string \<times> string) list \<Rightarrow> string \<Rightarrow> string" where
  "rename_label m c = (case map_of m c of Some c' \<Rightarrow> c' | None \<Rightarrow> c)"

definition rename_columns :: "(string \<times> string) list \<Rightarrow> frame \<Rightarrow> frame" where
  "rename_columns m f = f\<lparr>columns := map (rename_label m) (columns f)\<rparr>"

text \<open>\<open>df[c]\<close> with a single label: the column as a series.\<close>

definition get_column :: "frame \<Rightarrow> string \<Rightarrow> cell list py" where
  "get_column f c =
     (if c \<in> set (columns f) then Inr (map (\<lambda>r. r ! col_pos (columns f) c) (rows f))
      else Inl (KeyError [c]))"

section \<open>Value counts\<close>

text \<open>
  \<open>Series.value_counts()\<close>: the non-missing values with their numbers of occurrences,
  most frequent first.  The counts are accumulated in order of first appearance and then
  sorted by a stable sort on the negated count; pandas leaves the order of equal counts
  unspecified, and every lemma below holds for any order of ties except where it says so.
\<close>

definition present :: "cell list \<Rightarrow> string list" where
  "present cs = concat (map (\<lambda>c. case c of Val v \<Rightarrow> [v] | NaN \<Rightarrow> []) cs)"

fun count_into :: "(string \<times> nat) list \<Rightarrow> string \<Rightarrow> (string \<times> nat) list" where
  "count_into [] v = [(v, 1)]"
| "count_into ((k, n) # ps) v = (if k = v then (k, Suc n) # ps else (k, n) # count_into ps v)"

definition tally :: "string list \<Rightarrow> (string \<times> nat) list" where
  "tally vs = foldl count_into [] vs"

definition value_counts :: "cell list \<Rightarrow> (string \<times> nat) list" where
  "value_counts cs = sort_key (\<lambda>p. - int (snd p)) (tally (present cs))"

section \<open>The display table of the dashboard\<close>

definition display_columns :: "string list" where
  "display_columns = [''SQLDATE'', ''Actor1Name'', ''Actor2Name'', ''EventCode'', ''EventRootCode'',
     ''GoldsteinScale'', ''NumMentions'', ''AvgTone'', ''SOURCEURL'']"

definition display_names :: "(string \<times> string) list" where
  "display_names = [(''SQLDATE'', ''Event Date''), (''Actor1Name'', ''Actor 1''),
     (''Actor2Name'', ''Actor 2''), (''EventCode'', ''Event Code''),
     (''EventRootCode'', ''Event Root Code''), (''GoldsteinScale'', ''Goldstein Scale''),
     (''NumMentions'', ''Mentions''), (''AvgTone'', ''Avg Tone''), (''SOURCEURL'', ''Source URL'')]"

definition display_frame :: "frame \<Rightarrow> frame py" where
  "display_frame f = bind_exn (select_columns display_columns f) (\<lambda>g. Inr (rename_columns display_names g))"

definition display_labels :: "string list" where
  "display_labels = [''Event Date'', ''Actor 1'', ''Actor 2'', ''Event Code'', ''Event Root Code'',
     ''Goldstein Scale'', ''Mentions'', ''Avg Tone'', ''Source URL'']"

section \<open>Reference counting and the one-pass tally\<close>

text \<open>
  The reference: each distinct value, in order of first appearance, with its number of
  occurrences (\<open>count_list\<close>).  \<open>tally\<close> computes it in one pass.
\<close>

definition first_seen :: "'a list \<Rightarrow> 'a list" where
  "first_seen vs = rev (remdups (rev vs))"

definition ref_counts :: "string list \<Rightarrow> (string \<times> nat) list" where
  "ref_counts vs = map (\<lambda>k. (k, count_list vs k)) (first_seen vs)"

lemma first_seen_snoc:
  "first_seen (vs @ [v]) = (if v \<in> set vs then first_seen vs else first_seen vs @ [v])"
  by (simp add: first_seen_def)

lemma distinct_first_seen [simp]: "distinct (first_seen vs)"
  by (simp add: first_seen_def)

lemma set_first_seen [simp]: "set (first_seen vs) = set vs"
  by (simp add: first_seen_def)

lemma count_into_map:
  "distinct ks \<Longrightarrow> count_into (map (\<lambda>k. (k, f k)) ks) v =
     (if v \<in> set ks then map (\<lambda>k. (k, if k = v then Suc (f k) else f k)) ks
      else map (\<lambda>k. (k, f k)) ks @ [(v, 1)])"
  by (induction ks) auto

lemma count_list_snoc: "count_list (vs @ [v]) k = count_list vs k + (if v = k then 1 else 0)"
  by (induction vs) auto

theorem tally_eq_ref_counts: "tally vs = ref_counts vs"
proof (induction vs rule: rev_induct)
  case Nil
  then show ?case by (simp add: tally_def ref_counts_def first_seen_def)
next
  case (snoc v vs)
  have "tally (vs @ [v]) = count_into (ref_counts vs) v"
    using snoc by (simp add: tally_def)
  also have "\<dots> = ref_counts (vs @ [v])"
    by (auto simp: ref_counts_def count_into_map first_seen_snoc count_list_snoc
             intro!: map_cong)
  finally show ?case .
qed

lemma count_list_pos: "0 < count_list vs k \<longleftrightarrow> k \<in> set vs"
  by (induction vs) auto

lemma sum_count_into: "sum_list (map snd (count_into ps v)) = Suc (sum_list (map snd ps))"
  by (induction ps v rule: count_into.induct) auto

lemma sum_tally_foldl:
  "sum_list (map snd (foldl count_into acc vs)) = sum_list (map snd acc) + length vs"
  by (induction vs arbitrary: acc) (auto simp: sum_count_into)

lemma length_present: "length (present cs) + count_list cs NaN = length cs"
  by (induction cs) (auto simp: present_def split: cell.splits)

lemma mset_value_counts_tally: "mset (value_counts cs) = mset (tally (present cs))"
  by (simp add: value_counts_def)

lemma set_value_counts: "set (value_counts cs) = set (ref_counts (present cs))"
  by (metis mset_value_counts_tally tally_eq_ref_counts set_mset_mset)

lemma sum_snd_value_counts: "sum_list (map snd (value_counts cs)) = length (present cs)"
proof -
  have "sum_list (map snd (value_counts cs)) = sum_list (map snd (tally (present cs)))"
    by (simp add: value_counts_def flip: sum_mset_sum_list)
  also have "\<dots> = length (present cs)"
    using sum_tally_foldl[of "[]" "present cs"] by (simp add: tally_def)
  finally show ?thesis .
qed

section \<open>Properties of value counts\<close>

text \<open>
  C15: Up to the order of its entries, \<open>value_counts\<close> is the reference count.\<close>

theorem mset_value_counts: "mset (value_counts cs) = mset (ref_counts (present cs))"
  by (simp add: mset_value_counts_tally tally_eq_ref_counts)

text \<open>
  C16: A pair (v, n) is an entry of value_counts exactly when v is a non-missing value of the column and n its number of occurrences.\<close>

theorem value_counts_entries:
  "(k, n) \<in> set (value_counts cs) \<longleftrightarrow> k \<in> set (present cs) \<and> n = count_list (present cs) k"
  by (auto simp: set_value_counts ref_counts_def)

text \<open>
  C17: Each value appears at most once among the entries of value_counts.\<close>

theorem value_counts_distinct: "distinct (map fst (value_counts cs))"
proof -
  have "mset (map fst (value_counts cs)) = image_mset fst (mset (ref_counts (present cs)))"
    by (simp add: mset_value_counts_tally tally_eq_ref_counts)
  also have "\<dots> = mset (first_seen (present cs))"
    by (simp add: ref_counts_def multiset.map_comp comp_def)
  finally show ?thesis
    by (metis distinct_first_seen mset_eq_imp_distinct_iff)
qed

text \<open>
  C18: The counts of value_counts plus the number of missing cells add up to the length of the column: NaN cells are dropped, so the counts alone sum to the row count only when no cell is missing.\<close>

theorem value_counts_total: "sum_list (map snd (value_counts cs)) + count_list cs NaN = length cs"
  using length_present[of cs] by (simp add: sum_snd_value_counts)

section \<open>The display table\<close>

lemma rename_display_columns: "map (rename_label display_names) display_columns = display_labels"
  by (simp add: display_columns_def display_names_def display_labels_def rename_label_def)

lemma select_columns_Inr:
  "set cols \<subseteq> set (columns f) \<Longrightarrow>
   select_columns cols f = Inr \<lparr>columns = cols, rows = map (\<lambda>r. map (\<lambda>c. r ! col_pos (columns f) c) cols) (rows f)\<rparr>"
  by (auto simp: select_columns_def Let_def filter_empty_conv)

lemma select_columns_Inl:
  "\<not> set cols \<subseteq> set (columns f) \<Longrightarrow>
   select_columns cols f = Inl (KeyError (filter (\<lambda>c. c \<notin> set (columns f)) cols))"
  by (auto simp: select_columns_def Let_def filter_empty_conv)

lemma distinct_display_labels: "distinct display_labels"
  by (simp add: display_labels_def)

lemma col_pos_event_root: "col_pos display_labels ''Event Root Code'' = 4"
  by (simp add: display_labels_def)

text \<open>
  With all nine GDELT columns present, the display table has the nine labels, in order, and
  the same rows; its \<open>Event Root Code\<close> column is the \<open>EventRootCode\<close> column of
  the fetched frame.  With a column missing, the selection raises \<open>KeyError\<close> naming
  the missing labels.
\<close>

lemma display_frame_ok:
  assumes "set display_columns \<subseteq> set (columns f)"
  shows "\<exists>g. display_frame f = Inr g \<and> columns g = display_labels \<and> frame_len g = frame_len f
           \<and> frame_wf g \<and> get_column g ''Event Root Code'' = get_column f ''EventRootCode''"
proof -
  let ?g = "\<lparr>columns = display_labels,
             rows = map (\<lambda>r. map (\<lambda>c. r ! col_pos (columns f) c) display_columns) (rows f)\<rparr>"
  have "display_frame f = Inr ?g"
    using assms by (simp add: display_frame_def select_columns_Inr rename_columns_def rename_display_columns)
  moreover have "frame_wf ?g"
    by (simp add: frame_wf_def distinct_display_labels list_all_iff display_labels_def display_columns_def)
  moreover have "''EventRootCode'' \<in> set (columns f)"
    using assms by (simp add: display_columns_def)
  moreover have "display_columns ! 4 = ''EventRootCode''" "4 < length display_columns"
    by (simp_all add: display_columns_def)
  moreover have "''Event Root Code'' \<in> set display_labels"
    by (simp add: display_labels_def)
  ultimately show ?thesis
    by (simp add: frame_len_def get_column_def col_pos_event_root)
qed

lemma display_frame_missing:
  "\<not> set display_columns \<subseteq> set (columns f) \<Longrightarrow>
   display_frame f = Inl (KeyError (filter (\<lambda>c. c \<notin> set (columns f)) display_columns))"
  by (simp add: display_frame_def select_columns_Inl)

end
