(* ===== verification/Widgets.thy ===== *)
theory Widgets
  imports Calendar Frame
begin

text \<open>
  The Streamlit surface that \<open>src/app.py\<close> calls.  A run of the script renders a list
  of page elements in order (sidebar widgets, title, messages, the table and the chart);
  the widgets return their current value, which is the default unless the user has
  chosen another one.  The user's choices are a record \<open>widgets\<close>: for a
  \<open>selectbox\<close> the index chosen among its options, for a \<open>date_input\<close> the date
  chosen.  Streamlit only offers indices within the options and only produces valid
  \<open>date\<close> objects; \<open>widgets_ok\<close> states this.
\<close>

datatype element =
    SidebarHeader string
  | SidebarSelectbox string string
  | SidebarDateInput string date
  | Title string
  | Markdown string
  | InfoBox string
  | WarningBox string
  | SuccessBox string
  | ErrorBox string
  | DataframeView frame
  | Subheader string
  | BarChart "(string \<times> nat) list"

text \<open>\<open>st.selectbox(label, options, index=i)\<close>: the chosen option, or option \<open>i\<close>.\<close>

definition selectbox :: "string list \<Rightarrow> nat \<Rightarrow> nat option \<Rightarrow> string" where
  "selectbox options index choice = options ! (case choice of None \<Rightarrow> index | Some i \<Rightarrow> i)"

text \<open>\<open>st.date_input(label, value)\<close>: the chosen date, or the default value.\<close>

definition date_input :: "date \<Rightarrow> date option \<Rightarrow> date" where
  "date_input value choice = (case choice of None \<Rightarrow> value | Some d \<Rightarrow> d)"

record widgets =
  time_span_choice :: "nat option"
  start_choice :: "date option"
  end_choice :: "date option"
  region_choice :: "nat option"
  event_choice :: "nat option"

definition widgets_ok :: "widgets \<Rightarrow> bool" where
  "widgets_ok w \<longleftrightarrow>
     pred_option (\<lambda>i. i < 4) (time_span_choice w) \<and> pred_option date_valid (start_choice w)
     \<and> pred_option date_valid (end_choice w) \<and> pred_option (\<lambda>i. i < 5) (region_choice w)
     \<and> pred_option (\<lambda>i. i < 5) (event_choice w)"

definition untouched :: widgets where
  "untouched = \<lparr>time_span_choice = None, start_choice = None, end_choice = None,
                region_choice = None, event_choice = None\<rparr>"

lemma selectbox_in_options:
  "index < length options \<Longrightarrow> pred_option (\<lambda>i. i < length options) choice \<Longrightarrow>
   selectbox options index choice \<in> set options"
  by (cases choice) (simp_all add: selectbox_def)

lemma untouched_ok: "widgets_ok untouched"
  by (simp add: widgets_ok_def untouched_def)

end
