(* ===== verification/Filters.thy ===== *)
theory Filters
  imports Widgets
begin

text \<open>
  The sidebar filters of \<open>src/app.py\<close> (lines 12--68), each as the source computes
  it from the string its selectbox returns: the time span block turns the choice into
  \<open>start_date\<close> and \<open>end_date\<close> (rendering two date pickers for a custom range), the
  date-string block formats them, and the region and event-type blocks turn their
  choices into optional query clauses.  The \<open>if\<close>/\<open>elif\<close> chains are kept in the
  source's order, with the fall-through case the source has (\<open>start_date\<close> stays
  \<open>None\<close>, \<open>region_filter\<close> falls back to \<open>Country:UK\<close>, \<open>event_filter\<close> stays
  \<open>None\<close>).
\<close>

definition time_span_options :: "string list" where
  "time_span_options = [''Last Month'', ''Last 3 Months'', ''Last 6 Months'', ''Custom Date Range'']"

definition region_options :: "string list" where
  "region_options = [''United Kingdom'', ''England'', ''Scotland'', ''Wales'', ''Northern Ireland'']"

definition event_type_options :: "string list" where
  "event_type_options = [''All Events'', ''Protests'', ''Violence'', ''Diplomacy'', ''Public Statements'']"

section \<open>Time span (lines 16--29)\<close>

definition time_span_block ::
  "datetime \<Rightarrow> widgets \<Rightarrow> string \<Rightarrow> (datetime option \<times> datetime \<times> element list) py" where
  "time_span_block now w selected_time_span =
     (let end_date = now in
      if selected_time_span = ''Last Month'' then
        bind_exn (dt_sub_days end_date 30) (\<lambda>s. Inr (Some s, end_date, []))
      else if selected_time_span = ''Last 3 Months'' then
        bind_exn (dt_sub_days end_date 90) (\<lambda>s. Inr (Some s, end_date, []))
      else if selected_time_span = ''Last 6 Months'' then
        bind_exn (dt_sub_days end_date 180) (\<lambda>s. Inr (Some s, end_date, []))
      else if selected_time_span = ''Custom Date Range'' then
        bind_exn (dt_sub_days end_date 90) (\<lambda>dflt.
          let start_date_input = date_input (date_of dflt) (start_choice w);
              end_date_input = date_input (date_of end_date) (end_choice w)
          in Inr (Some (combine start_date_input time_min), combine end_date_input time_max,
                  [SidebarDateInput ''Start Date'' start_date_input,
                   SidebarDateInput ''End Date'' end_date_input]))
      else Inr (None, end_date, []))"

section \<open>Date strings (lines 31--36)\<close>

text \<open>\<open>if start_date:\<close> -- a \<open>datetime\<close> object is always true, \<open>None\<close> is false.\<close>

definition date_strings :: "datetime option \<Rightarrow> datetime \<Rightarrow> (string \<times> string) py" where
  "date_strings start_date end_date =
     (case start_date of
        Some s \<Rightarrow> Inr (strftime_Ymd s, strftime_Ymd end_date)
      | None \<Rightarrow> bind_exn (dt_sub_days end_date 90) (\<lambda>d. Inr (strftime_Ymd d, strftime_Ymd end_date)))"

section \<open>Region (lines 39--53)\<close>

definition region_filter :: "string \<Rightarrow> string" where
  "region_filter selected_region =
     (if selected_region = ''England'' then ''Region:England''
      else if selected_region = ''Scotland'' then ''Region:Scotland''
      else if selected_region = ''Wales'' then ''Region:Wales''
      else if selected_region = ''Northern Ireland'' then ''Region:Northern Ireland''
      else ''Country:UK'')"

section \<open>Event type (lines 56--68)\<close>

definition event_filter :: "string \<Rightarrow> string option" where
  "event_filter selected_event_type =
     (if selected_event_type = ''Protests'' then Some ''EventCode:17*''
      else if selected_event_type = ''Violence'' then Some ''EventCode:18*,19*,20*''
      else if selected_event_type = ''Diplomacy'' then Some ''EventCode:01*,02*,03*,04*''
      else if selected_event_type = ''Public Statements'' then Some ''EventCode:05*,06*''
      else None)"

section \<open>Properties of the filters\<close>

lemma length_options:
  "length time_span_options = 4" "length region_options = 5" "length event_type_options = 5"
  by (simp_all add: time_span_options_def region_options_def event_type_options_def)

lemma time_span_options_cases:
  "t \<in> set time_span_options \<longleftrightarrow>
   t = ''Last Month'' \<or> t = ''Last 3 Months'' \<or> t = ''Last 6 Months'' \<or> t = ''Custom Date Range''"
  by (auto simp: time_span_options_def)

text \<open>
  A preset time span ends now and starts exactly 30, 90 or 180 days earlier at the same time
  of day, and renders no date picker.
\<close>

lemma time_span_block_preset:
  assumes "(sel = ''Last Month'' \<and> k = 30) \<or> (sel = ''Last 3 Months'' \<and> k = 90)
           \<or> (sel = ''Last 6 Months'' \<and> k = 180)"
  shows "time_span_block now w sel = bind_exn (dt_sub_days now k) (\<lambda>s. Inr (Some s, now, []))"
  using assms by (elim disjE conjE) (simp_all add: time_span_block_def)

text \<open>
  C3: For Last Month / Last 3 Months / Last 6 Months the time-span block ends at now and starts exactly 30 / 90 / 180 days earlier (by ordinal) at the same time of day, rendering no date picker.\<close>

theorem preset_window:
  assumes "(sel = ''Last Month'' \<and> k = 30) \<or> (sel = ''Last 3 Months'' \<and> k = 90)
           \<or> (sel = ''Last 6 Months'' \<and> k = 180)"
    and "date_valid now" and "k < toordinal now"
  shows "\<exists>s. time_span_block now w sel = Inr (Some s, now, [])
             \<and> toordinal s = toordinal now - k \<and> time_of s = time_of now"
proof -
  have k0: "0 \<le> k" using assms(1) by auto
  obtain s where "dt_sub_days now k = Inr s" "toordinal s = toordinal now - k" "time_of s = time_of now"
    by (rule dt_sub_days_valid[OF assms(2) k0 assms(3)])
  then show ?thesis
    using time_span_block_preset[OF assms(1)] by simp
qed

text \<open>
  C4: A custom range renders the two date pickers; the start picker defaults to 90 days before
  now, the end picker to today; the range runs from the start of the first chosen day to
  the end (\<open>23:59:59.999999\<close>) of the second.
\<close>

theorem custom_window:
  assumes "date_valid now" and "90 < toordinal now"
  shows "\<exists>d :: datetime. toordinal d = toordinal now - 90 \<and>
           time_span_block now w ''Custom Date Range'' =
             Inr (Some (combine (date_input (date_of d) (start_choice w)) time_min),
                  combine (date_input (date_of now) (end_choice w)) time_max,
                  [SidebarDateInput ''Start Date'' (date_input (date_of d) (start_choice w)),
                   SidebarDateInput ''End Date'' (date_input (date_of now) (end_choice w))])"
proof -
  obtain s where "dt_sub_days now 90 = Inr s" "toordinal s = toordinal now - 90"
    by (rule dt_sub_days_valid[OF assms(1) _ assms(2)]) simp_all
  then show ?thesis
    by (intro exI[of _ s]) (simp add: time_span_block_def Let_def)
qed

text \<open>
  For every option of the time-span selectbox, the block that returns sets \<open>start_date\<close>:
  the fallback branch of the date-string block (lines 34--36) is never taken.
\<close>

lemma time_span_block_fallback:
  "sel \<notin> set time_span_options \<Longrightarrow> time_span_block now w sel = Inr (None, now, [])"
  by (simp add: time_span_options_cases time_span_block_def)

lemma time_span_block_custom:
  "time_span_block now w ''Custom Date Range'' =
     bind_exn (dt_sub_days now 90) (\<lambda>dflt.
       Inr (Some (combine (date_input (date_of dflt) (start_choice w)) time_min),
            combine (date_input (date_of now) (end_choice w)) time_max,
            [SidebarDateInput ''Start Date'' (date_input (date_of dflt) (start_choice w)),
             SidebarDateInput ''End Date'' (date_input (date_of now) (end_choice w))]))"
  by (simp add: time_span_block_def Let_def)

text \<open>
  C5: For every option of the time-span selectbox, the block that returns sets \<open>start_date\<close>:
  the fallback branch of the date-string block (lines 34--36) is never taken.
\<close>

theorem start_date_always_set:
  assumes "sel \<in> set time_span_options" and "time_span_block now w sel = Inr (sd, ed, pickers)"
  shows "sd \<noteq> None"
proof -
  consider k where "(sel = ''Last Month'' \<and> k = 30) \<or> (sel = ''Last 3 Months'' \<and> k = 90)
                    \<or> (sel = ''Last 6 Months'' \<and> k = (180::int))"
    | "sel = ''Custom Date Range''"
    using assms(1) by (auto simp: time_span_options_cases)
  then show ?thesis
  proof cases
    case (1 k)
    with assms(2) show ?thesis by (auto simp: time_span_block_preset[OF 1])
  next
    case 2
    with assms(2) show ?thesis by (auto simp: time_span_block_custom)
  qed
qed

lemma time_span_block_returns:
  assumes "sel \<in> set time_span_options" and "date_valid now" and "180 < toordinal now"
  shows "\<exists>s ed pickers. time_span_block now w sel = Inr (Some s, ed, pickers)"
proof -
  consider k where "(sel = ''Last Month'' \<and> k = 30) \<or> (sel = ''Last 3 Months'' \<and> k = 90)
                    \<or> (sel = ''Last 6 Months'' \<and> k = (180::int))"
    | "sel = ''Custom Date Range''"
    using assms(1) by (auto simp: time_span_options_cases)
  then show ?thesis
  proof cases
    case (1 k)
    then have "0 \<le> k" "k < toordinal now" using assms(3) by auto
    then obtain s where "dt_sub_days now k = Inr s"
      using dt_sub_days_valid[OF assms(2)] by blast
    then show ?thesis by (simp add: time_span_block_preset[OF 1])
  next
    case 2
    obtain s where "dt_sub_days now 90 = Inr s"
      using dt_sub_days_valid[OF assms(2), of 90] assms(3) by force
    with 2 show ?thesis by (simp add: time_span_block_custom)
  qed
qed

lemma date_strings_Some: "date_strings (Some s) e = Inr (strftime_Ymd s, strftime_Ymd e)"
  by (simp add: date_strings_def)

section \<open>Witnesses\<close>

text \<open>The hypotheses of the theorems above hold at 2024-04-01 10:00 with untouched widgets.\<close>

theorem preset_window_witness:
  "((''Last Month'' = ''Last Month'' \<and> (30::int) = 30) \<or> (''Last Month'' = ''Last 3 Months'' \<and> (30::int) = 90)
     \<or> (''Last Month'' = ''Last 6 Months'' \<and> (30::int) = 180))
   \<and> date_valid \<lparr>year = 2024, month = 4, day = 1, hour = 10, minute = 0, second = 0, microsecond = 0\<rparr> \<and> 30 < toordinal \<lparr>year = 2024, month = 4, day = 1, hour = 10, minute = 0, second = 0, microsecond = 0\<rparr>
   \<and> (\<exists>s. time_span_block \<lparr>year = 2024, month = 4, day = 1, hour = 10, minute = 0, second = 0, microsecond = 0\<rparr> untouched ''Last Month'' = Inr (Some s, \<lparr>year = 2024, month = 4, day = 1, hour = 10, minute = 0, second = 0, microsecond = 0\<rparr>, [])
          \<and> toordinal s = toordinal \<lparr>year = 2024, month = 4, day = 1, hour = 10, minute = 0, second = 0, microsecond = 0\<rparr> - 30 \<and> time_of s = time_of \<lparr>year = 2024, month = 4, day = 1, hour = 10, minute = 0, second = 0, microsecond = 0\<rparr>)"
proof -
  have h1: "(''Last Month'' = ''Last Month'' \<and> (30::int) = 30) \<or> (''Last Month'' = ''Last 3 Months'' \<and> (30::int) = 90)
     \<or> (''Last Month'' = ''Last 6 Months'' \<and> (30::int) = 180)" by simp
  have h2: "date_valid \<lparr>year = 2024, month = 4, day = 1, hour = 10, minute = 0, second = 0, microsecond = 0\<rparr>" and h3: "30 < toordinal \<lparr>year = 2024, month = 4, day = 1, hour = 10, minute = 0, second = 0, microsecond = 0\<rparr>"
    by (simp_all add: calendar_eval)
  show ?thesis using preset_window[OF h1 h2 h3, of untouched] h1 h2 h3 by blast
qed

theorem custom_window_witness:
  "date_valid \<lparr>year = 2024, month = 4, day = 1, hour = 10, minute = 0, second = 0, microsecond = 0\<rparr> \<and> 90 < toordinal \<lparr>year = 2024, month = 4, day = 1, hour = 10, minute = 0, second = 0, microsecond = 0\<rparr>
   \<and> (\<exists>d :: datetime. toordinal d = toordinal \<lparr>year = 2024, month = 4, day = 1, hour = 10, minute = 0, second = 0, microsecond = 0\<rparr> - 90 \<and>
        time_span_block \<lparr>year = 2024, month = 4, day = 1, hour = 10, minute = 0, second = 0, microsecond = 0\<rparr> untouched ''Custom Date Range'' =
          Inr (Some (combine (date_input (date_of d) (start_choice untouched)) time_min),
               combine (date_input (date_of \<lparr>year = 2024, month = 4, day = 1, hour = 10, minute = 0, second = 0, microsecond = 0\<rparr>) (end_choice untouched)) time_max,
               [SidebarDateInput ''Start Date'' (date_input (date_of d) (start_choice untouched)),
                SidebarDateInput ''End Date'' (date_input (date_of \<lparr>year = 2024, month = 4, day = 1, hour = 10, minute = 0, second = 0, microsecond = 0\<rparr>) (end_choice untouched))]))"
proof -
  have h1: "date_valid \<lparr>year = 2024, month = 4, day = 1, hour = 10, minute = 0, second = 0, microsecond = 0\<rparr>" and h2: "90 < toordinal \<lparr>year = 2024, month = 4, day = 1, hour = 10, minute = 0, second = 0, microsecond = 0\<rparr>"
    by (simp_all add: calendar_eval)
  show ?thesis using custom_window[OF h1 h2, of untouched] h1 h2 by blast
qed

theorem start_date_always_set_witness:
  "''Last Month'' \<in> set time_span_options
   \<and> time_span_block \<lparr>year = 2024, month = 4, day = 1, hour = 10, minute = 0, second = 0, microsecond = 0\<rparr> untouched ''Last Month'' = Inr (Some \<lparr>year = 2024, month = 3, day = 2, hour = 10, minute = 0, second = 0, microsecond = 0\<rparr>, \<lparr>year = 2024, month = 4, day = 1, hour = 10, minute = 0, second = 0, microsecond = 0\<rparr>, [])
   \<and> Some \<lparr>year = 2024, month = 3, day = 2, hour = 10, minute = 0, second = 0, microsecond = 0\<rparr> \<noteq> None"
proof -
  have h1: "''Last Month'' \<in> set time_span_options"
    by (simp add: time_span_options_def)
  have h2: "time_span_block \<lparr>year = 2024, month = 4, day = 1, hour = 10, minute = 0, second = 0, microsecond = 0\<rparr> untouched ''Last Month'' = Inr (Some \<lparr>year = 2024, month = 3, day = 2, hour = 10, minute = 0, second = 0, microsecond = 0\<rparr>, \<lparr>year = 2024, month = 4, day = 1, hour = 10, minute = 0, second = 0, microsecond = 0\<rparr>, [])"
    by (simp add: time_span_block_def calendar_eval Let_def)
  show ?thesis using start_date_always_set[OF h1 h2] h1 h2 by blast
qed

end
