(* ===== verification/Query.thy ===== *)
theory Query
  imports Filters
begin

text \<open>
  The query builder of \<open>src/app.py\<close> (lines 73--85): the base clauses for the date
  range and the country, the region clause appended when the region is not the whole
  country, the event clause appended when a category is selected, and the clauses joined
  with single spaces.  The guards are Python truth tests: a string is true when non-empty,
  \<open>None\<close> is false.
\<close>

definition query_params ::
  "string \<Rightarrow> string \<Rightarrow> string \<Rightarrow> string \<Rightarrow> string \<Rightarrow> string option \<Rightarrow> string list" where
  "query_params start_date_str end_date_str selected_region region_filter_v
                selected_event_type event_filter_v =
     (let qp = [''DATE>'' @ start_date_str, ''DATE<'' @ end_date_str, ''COUNTRY:UK''];
          qp = (if region_filter_v \<noteq> [] \<and> selected_region \<noteq> ''United Kingdom''
                then qp @ [region_filter_v] else qp);
          qp = (case event_filter_v of
                  Some f \<Rightarrow> if f \<noteq> [] \<and> selected_event_type \<noteq> ''All Events'' then qp @ [f] else qp
                | None \<Rightarrow> qp)
      in qp)"

definition query_string :: "string list \<Rightarrow> string" where
  "query_string qp = py_join '' '' qp"

definition display_message :: "string \<Rightarrow> string \<Rightarrow> string \<Rightarrow> string" where
  "display_message selected_region start_date_str end_date_str =
     ''Displaying events for **'' @ selected_region @ ''** from **'' @ start_date_str
     @ ''** to **'' @ end_date_str @ ''**''"

definition info_message :: "string \<Rightarrow> string" where
  "info_message q = ''GDELT Query: `'' @ q @ ''`''"

section \<open>The contract of the query builder\<close>

text \<open>
  What the query builder promises (spec, sections 4.1, 4.2 and 6): the date bounds and the
  country, then a \<open>Region:\<close> clause naming the region unless it is the whole country,
  then an \<open>EventCode:\<close> clause listing the category's code prefixes as wildcards unless
  the category is \<open>All Events\<close>.
\<close>

definition category_prefixes :: "string \<Rightarrow> string list" where
  "category_prefixes c =
     (if c = ''Protests'' then [''17'']
      else if c = ''Violence'' then [''18'', ''19'', ''20'']
      else if c = ''Diplomacy'' then [''01'', ''02'', ''03'', ''04'']
      else if c = ''Public Statements'' then [''05'', ''06'']
      else [])"

definition spec_clauses :: "string \<Rightarrow> string \<Rightarrow> string \<Rightarrow> string \<Rightarrow> string list" where
  "spec_clauses s e region category =
     [''DATE>'' @ s, ''DATE<'' @ e, ''COUNTRY:UK'']
     @ (if region = ''United Kingdom'' then [] else [''Region:'' @ region])
     @ (if category = ''All Events'' then []
        else [''EventCode:'' @ py_join '','' (map (\<lambda>p. p @ ''*'') (category_prefixes category))])"

lemma region_options_cases:
  "r \<in> set region_options \<longleftrightarrow>
   r = ''United Kingdom'' \<or> r = ''England'' \<or> r = ''Scotland'' \<or> r = ''Wales'' \<or> r = ''Northern Ireland''"
  by (auto simp: region_options_def)

lemma event_type_options_cases:
  "c \<in> set event_type_options \<longleftrightarrow>
   c = ''All Events'' \<or> c = ''Protests'' \<or> c = ''Violence'' \<or> c = ''Diplomacy'' \<or> c = ''Public Statements''"
  by (auto simp: event_type_options_def)

lemma region_clause:
  "r \<in> set region_options \<Longrightarrow>
   (if region_filter r \<noteq> [] \<and> r \<noteq> ''United Kingdom'' then [region_filter r] else [])
   = (if r = ''United Kingdom'' then [] else [''Region:'' @ r])"
  by (auto simp: region_options_cases region_filter_def)

lemma event_clause:
  "c \<in> set event_type_options \<Longrightarrow>
   (case event_filter c of Some f \<Rightarrow> if f \<noteq> [] \<and> c \<noteq> ''All Events'' then [f] else [] | None \<Rightarrow> [])
   = (if c = ''All Events'' then []
      else [''EventCode:'' @ py_join '','' (map (\<lambda>p. p @ ''*'') (category_prefixes c))])"
  by (auto simp: event_type_options_cases event_filter_def category_prefixes_def)

lemma query_params_append:
  "query_params s e r rf c ef =
     [''DATE>'' @ s, ''DATE<'' @ e, ''COUNTRY:UK'']
     @ (if rf \<noteq> [] \<and> r \<noteq> ''United Kingdom'' then [rf] else [])
     @ (case ef of Some f \<Rightarrow> if f \<noteq> [] \<and> c \<noteq> ''All Events'' then [f] else [] | None \<Rightarrow> [])"
  by (simp add: query_params_def Let_def split: option.split)

text \<open>For every option the selectboxes offer, the clauses built by the code are the contract's.\<close>

lemma query_params_refines_spec:
  assumes "r \<in> set region_options" and "c \<in> set event_type_options"
  shows "query_params s e r (region_filter r) c (event_filter c) = spec_clauses s e r c"
  using region_clause[OF assms(1)] event_clause[OF assms(2)]
  by (simp add: query_params_append spec_clauses_def)

section \<open>Splitting the query string into clauses\<close>

text \<open>
  The query string is the clauses joined by single spaces, and its consumer reads the
  clauses back by splitting at spaces.  This recovers exactly the clauses the code built
  for every region but one, provided the date strings hold no space (they are digits).
\<close>

lemma no_space_regions:
  "list_all (\<lambda>r. r = ''United Kingdom'' \<or> r = ''Northern Ireland'' \<or> CHR '' '' \<notin> set r) region_options"
  by (simp add: region_options_def)

lemma no_space_region:
  "r \<in> set region_options \<Longrightarrow> r \<noteq> ''United Kingdom'' \<Longrightarrow> r \<noteq> ''Northern Ireland'' \<Longrightarrow>
   CHR '' '' \<notin> set r"
  using no_space_regions by (auto simp: list_all_iff)

lemma no_space_event_clause:
  "CHR '' '' \<notin> set (''EventCode:'' @ py_join '','' (map (\<lambda>p. p @ ''*'') (category_prefixes c)))"
  by (simp add: category_prefixes_def)

text \<open>
  C11: Splitting the query string at spaces gives back exactly the clauses the code built, for every region but Northern Ireland and every category, when the date strings hold no space.\<close>

theorem query_split_roundtrip:
  assumes "r \<in> set region_options" and "r \<noteq> ''Northern Ireland''" and "c \<in> set event_type_options"
    and "CHR '' '' \<notin> set s" and "CHR '' '' \<notin> set e"
  shows "py_split (CHR '' '') (query_string (query_params s e r (region_filter r) c (event_filter c)))
         = query_params s e r (region_filter r) c (event_filter c)"
proof -
  have "\<forall>x \<in> set (spec_clauses s e r c). CHR '' '' \<notin> set x"
  proof (cases "r = ''United Kingdom''")
    case True
    then show ?thesis
      using assms(4,5) no_space_event_clause[of c] by (simp add: spec_clauses_def)
  next
    case False
    then show ?thesis
      using assms(4,5) no_space_region[OF assms(1) False assms(2)] no_space_event_clause[of c]
      by (simp add: spec_clauses_def)
  qed
  moreover have "spec_clauses s e r c \<noteq> []"
    by (simp add: spec_clauses_def)
  ultimately show ?thesis
    using py_split_join[of "spec_clauses s e r c" "CHR '' ''"]
    by (simp add: query_params_refines_spec[OF assms(1,3)] query_string_def)
qed

text \<open>
  C12: The exception, for every category: the clause \<open>Region:Northern Ireland\<close> holds a
  space, so splitting the query string at spaces yields the tokens \<open>Region:Northern\<close> and
  \<open>Ireland\<close> in its place, and the consumer no longer reads the clauses the code built.
\<close>

theorem northern_ireland_clause_splits:
  assumes "c \<in> set event_type_options" and "CHR '' '' \<notin> set s" and "CHR '' '' \<notin> set e"
  shows "py_split (CHR '' '') (query_string (query_params s e ''Northern Ireland''
            (region_filter ''Northern Ireland'') c (event_filter c)))
         = [''DATE>'' @ s, ''DATE<'' @ e, ''COUNTRY:UK'', ''Region:Northern'', ''Ireland'']
           @ (if c = ''All Events'' then []
              else [''EventCode:'' @ py_join '','' (map (\<lambda>p. p @ ''*'') (category_prefixes c))])
       \<and> py_split (CHR '' '') (query_string (query_params s e ''Northern Ireland''
            (region_filter ''Northern Ireland'') c (event_filter c)))
         \<noteq> query_params s e ''Northern Ireland'' (region_filter ''Northern Ireland'') c (event_filter c)"
proof -
  define E where "E = (if c = ''All Events'' then []
                       else [''EventCode:'' @ py_join '','' (map (\<lambda>p. p @ ''*'') (category_prefixes c))])"
  have ni: "''Northern Ireland'' \<in> set region_options" by (simp add: region_options_def)
  have qp: "query_params s e ''Northern Ireland'' (region_filter ''Northern Ireland'') c (event_filter c)
            = [''DATE>'' @ s, ''DATE<'' @ e, ''COUNTRY:UK'', ''Region:Northern Ireland''] @ E"
    by (simp add: query_params_refines_spec[OF ni assms(1)] spec_clauses_def E_def)
  have join: "py_join '' '' ([''DATE>'' @ s, ''DATE<'' @ e, ''COUNTRY:UK'', ''Region:Northern Ireland''] @ E)
              = py_join '' '' ([''DATE>'' @ s, ''DATE<'' @ e, ''COUNTRY:UK'', ''Region:Northern'', ''Ireland''] @ E)"
    by (cases "c = ''All Events''") (simp_all add: E_def)
  have "\<forall>x \<in> set E. CHR '' '' \<notin> set x"
    using no_space_event_clause[of c] by (simp add: E_def)
  then have split: "py_split (CHR '' '') (py_join [CHR '' '']
                      ([''DATE>'' @ s, ''DATE<'' @ e, ''COUNTRY:UK'', ''Region:Northern'', ''Ireland''] @ E))
                    = [''DATE>'' @ s, ''DATE<'' @ e, ''COUNTRY:UK'', ''Region:Northern'', ''Ireland''] @ E"
    using assms(2,3) by (intro py_split_join) auto
  have "length ([''DATE>'' @ s, ''DATE<'' @ e, ''COUNTRY:UK'', ''Region:Northern'', ''Ireland''] @ E)
        \<noteq> length ([''DATE>'' @ s, ''DATE<'' @ e, ''COUNTRY:UK'', ''Region:Northern Ireland''] @ E)"
    by simp
  then show ?thesis
    using split unfolding query_string_def qp join E_def[symmetric] by auto
qed

section \<open>Witnesses\<close>

theorem query_split_roundtrip_witness:
  "''Scotland'' \<in> set region_options \<and> ''Scotland'' \<noteq> ''Northern Ireland'' \<and> ''Protests'' \<in> set event_type_options
   \<and> CHR '' '' \<notin> set ''20240101'' \<and> CHR '' '' \<notin> set ''20240401''
   \<and> py_split (CHR '' '') (query_string (query_params ''20240101'' ''20240401'' ''Scotland''
         (region_filter ''Scotland'') ''Protests'' (event_filter ''Protests'')))
       = query_params ''20240101'' ''20240401'' ''Scotland'' (region_filter ''Scotland'') ''Protests'' (event_filter ''Protests'')"
  using query_split_roundtrip[of "''Scotland''" "''Protests''" "''20240101''" "''20240401''"]
  by (simp add: region_options_def event_type_options_def)

theorem northern_ireland_clause_splits_witness:
  "''Violence'' \<in> set event_type_options \<and> CHR '' '' \<notin> set ''20240101'' \<and> CHR '' '' \<notin> set ''20240401''
   \<and> py_split (CHR '' '') (query_string (query_params ''20240101'' ''20240401'' ''Northern Ireland''
         (region_filter ''Northern Ireland'') ''Violence'' (event_filter ''Violence'')))
       = [''DATE>20240101'', ''DATE<20240401'', ''COUNTRY:UK'', ''Region:Northern'', ''Ireland'', ''EventCode:18*,19*,20*'']"
proof -
  have h: "''Violence'' \<in> set event_type_options" by (simp add: event_type_options_def)
  show ?thesis
    using northern_ireland_clause_splits[OF h, of "''20240101''" "''20240401''"] h
    by (simp add: category_prefixes_def)
qed

end
