(* ===== verification/Dashboard.thy ===== *)
theory Dashboard
  imports Query
begin

text \<open>
  The whole script \<open>src/app.py\<close> as one run: Streamlit executes it top to bottom on
  every interaction, so a run maps the current time, the search function of the GDELT
  client and the widget choices to the page it renders.  An exception outside the
  \<open>try\<close> block (lines 87--120) ends the run with the elements rendered so far
  (\<open>Crashed\<close>); inside it, every exception is caught and rendered as two error
  messages.  The GDELT client (\<open>gdelt_conn.Search\<close>) is external: the model takes it
  as a parameter returning a frame or an exception.  The run is split as the code is: \<open>script_head\<close> (lines
  9--85) builds the sidebar, the messages and the query, then the \<open>try\<close> block fetches
  and presents.  The lemmas give the page of every outcome of the fetch and the query a
  run sends (the contract's; with a custom range, the picked dates).
\<close>

datatype run_result = Finished "element list" | Crashed exn "element list"

record env =
  now :: datetime
  search :: "string \<Rightarrow> frame py"

text \<open>\<open>str(e)\<close> of the exceptions (pandas renders missing labels as a Python list).\<close>

definition py_list_repr :: "string list \<Rightarrow> string" where
  "py_list_repr ks = ''['' @ py_join '', '' (map (\<lambda>k. CHR 0x27 # k @ [CHR 0x27]) ks) @ '']''"

fun exn_str :: "exn \<Rightarrow> string" where
  "exn_str OverflowError = ''date value out of range''"
| "exn_str (KeyError ks) = CHR 0x22 # py_list_repr ks @ '' not in index'' @ [CHR 0x22]"
| "exn_str (SearchError m) = m"

section \<open>The fetch-and-present block (lines 87--120)\<close>

text \<open>The body of the \<open>try\<close>: the elements it renders, and how it ends.\<close>

definition fetch_body :: "(string \<Rightarrow> frame py) \<Rightarrow> string \<Rightarrow> element list \<times> unit py" where
  "fetch_body search_fn query =
     (let page = [Markdown ''Fetching data from GDELT...''] in
      case search_fn query of
        Inl e \<Rightarrow> (page, Inl e)
      | Inr uk_events \<Rightarrow>
          if frame_empty uk_events then
            (page @ [WarningBox ''No events found matching the selected criteria.''], Inr ())
          else
            (let page = page @ [SuccessBox (''Found '' @ str_nat (frame_len uk_events) @ '' events.'')] in
             case display_frame uk_events of
               Inl e \<Rightarrow> (page, Inl e)
             | Inr uk_events_display \<Rightarrow>
                 (let page = page @ [DataframeView uk_events_display, Subheader ''Event Code Distribution''] in
                  case get_column uk_events_display ''Event Root Code'' of
                    Inl e \<Rightarrow> (page, Inl e)
                  | Inr col \<Rightarrow> (page @ [BarChart (value_counts col)], Inr ()))))"

definition error_hint :: string where
  "error_hint = ''Please ensure you have internet connectivity and the GDELT library is correctly installed.''"

definition fetch_and_show :: "(string \<Rightarrow> frame py) \<Rightarrow> string \<Rightarrow> element list" where
  "fetch_and_show search_fn query =
     (case fetch_body search_fn query of
        (page, Inl e) \<Rightarrow> page @ [ErrorBox (''Error fetching data from GDELT: '' @ exn_str e), ErrorBox error_hint]
      | (page, Inr _) \<Rightarrow> page)"

section \<open>One run of the script\<close>

text \<open>
  Lines 9--85, everything before the \<open>try\<close>: the sidebar, the title, the range and the
  query.  It either raises (with the elements rendered so far) or yields the page so far
  and the query string.
\<close>

definition script_head :: "datetime \<Rightarrow> widgets \<Rightarrow> (exn \<times> element list) + (element list \<times> string)" where
  "script_head now_v w =
     (let page = [SidebarHeader ''Filters''];
          selected_time_span = selectbox time_span_options 1 (time_span_choice w);
          page = page @ [SidebarSelectbox ''Time Span'' selected_time_span]
      in case time_span_block now_v w selected_time_span of
           Inl ex \<Rightarrow> Inl (ex, page)
         | Inr (start_date, end_date, pickers) \<Rightarrow>
             (let page = page @ pickers in
              case date_strings start_date end_date of
                Inl ex \<Rightarrow> Inl (ex, page)
              | Inr (start_date_str, end_date_str) \<Rightarrow>
                  (let selected_region = selectbox region_options 0 (region_choice w);
                       rf = region_filter selected_region;
                       selected_event_type = selectbox event_type_options 0 (event_choice w);
                       ef = event_filter selected_event_type;
                       page = page @ [SidebarSelectbox ''Region'' selected_region,
                                      SidebarSelectbox ''Event Type'' selected_event_type,
                                      Title ''UK Historical Events Dashboard (GDELT)'',
                                      Markdown (display_message selected_region start_date_str end_date_str)];
                       query = query_string (query_params start_date_str end_date_str
                                 selected_region rf selected_event_type ef);
                       page = page @ [InfoBox (info_message query)]
                   in Inr (page, query))))"

text \<open>The whole script: the head, then the \<open>try\<close> block on the query it built.\<close>

definition run :: "env \<Rightarrow> widgets \<Rightarrow> run_result" where
  "run e w =
     (case script_head (now e) w of
        Inl (ex, page) \<Rightarrow> Crashed ex page
      | Inr (page, query) \<Rightarrow> Finished (page @ fetch_and_show (search e) query))"

section \<open>The fetch-and-present block\<close>

abbreviation fetching :: element where
  "fetching \<equiv> Markdown ''Fetching data from GDELT...''"

definition error_boxes :: "exn \<Rightarrow> element list" where
  "error_boxes e = [ErrorBox (''Error fetching data from GDELT: '' @ exn_str e), ErrorBox error_hint]"

lemma fetch_and_show_Inl: "fetch_body s q = (page, Inl e) \<Longrightarrow> fetch_and_show s q = page @ error_boxes e"
  by (simp add: fetch_and_show_def error_boxes_def)

lemma fetch_and_show_Inr: "fetch_body s q = (page, Inr u) \<Longrightarrow> fetch_and_show s q = page"
  by (simp add: fetch_and_show_def)

text \<open>
  C6: A search that raises is caught: the page shows the two error messages and nothing else.\<close>

theorem fetch_search_error:
  "search_fn q = Inl e \<Longrightarrow> fetch_and_show search_fn q = fetching # error_boxes e"
  by (simp add: fetch_body_def fetch_and_show_Inl)

text \<open>
  C8: An empty result is not an error: a warning, and no table and no chart.\<close>

theorem fetch_no_events:
  "search_fn q = Inr df \<Longrightarrow> frame_empty df \<Longrightarrow>
   fetch_and_show search_fn q = [fetching, WarningBox ''No events found matching the selected criteria.'']"
  by (simp add: fetch_body_def fetch_and_show_Inr)

lemma length_get_column: "get_column f c = Inr col \<Longrightarrow> length col = frame_len f"
  by (auto simp: get_column_def frame_len_def split: if_splits)

text \<open>
  C9: A non-empty result with the nine GDELT columns: the row count, the renamed table with the
  same rows, and the chart of the \<open>EventRootCode\<close> counts, whose counts and missing cells
  add up to the number of rows.
\<close>

theorem fetch_events_shown:
  assumes "search_fn q = Inr df" and "\<not> frame_empty df" and "set display_columns \<subseteq> set (columns df)"
  shows "\<exists>g col. get_column df ''EventRootCode'' = Inr col \<and>
           fetch_and_show search_fn q =
             [fetching, SuccessBox (''Found '' @ str_nat (frame_len df) @ '' events.''),
              DataframeView g, Subheader ''Event Code Distribution'', BarChart (value_counts col)]
           \<and> columns g = display_labels \<and> frame_len g = frame_len df
           \<and> sum_list (map snd (value_counts col)) + count_list col NaN = frame_len df"
proof -
  obtain g where g: "display_frame df = Inr g" "columns g = display_labels" "frame_len g = frame_len df"
    "get_column g ''Event Root Code'' = get_column df ''EventRootCode''"
    using display_frame_ok[OF assms(3)] by blast
  have "''EventRootCode'' \<in> set (columns df)"
    using assms(3) by (simp add: display_columns_def)
  then obtain col where col: "get_column df ''EventRootCode'' = Inr col"
    by (simp add: get_column_def)
  have "fetch_body search_fn q =
          ([fetching, SuccessBox (''Found '' @ str_nat (frame_len df) @ '' events.''),
            DataframeView g, Subheader ''Event Code Distribution'', BarChart (value_counts col)], Inr ())"
    using assms(1,2) g col by (simp add: fetch_body_def)
  moreover have "sum_list (map snd (value_counts col)) + count_list col NaN = frame_len df"
    using sum_snd_value_counts[of col] length_present[of col] length_get_column[OF col] by simp
  ultimately show ?thesis
    using g col by (auto simp: fetch_and_show_Inr)
qed

text \<open>
  C7: A non-empty result that lacks one of the nine columns: the success line has already been
  shown, then the \<open>KeyError\<close> of the column selection is caught like a fetch failure.
\<close>

theorem fetch_missing_column_caught:
  assumes "search_fn q = Inr df" and "\<not> frame_empty df" and "\<not> set display_columns \<subseteq> set (columns df)"
  shows "fetch_and_show search_fn q =
           [fetching, SuccessBox (''Found '' @ str_nat (frame_len df) @ '' events.'')]
           @ error_boxes (KeyError (filter (\<lambda>c. c \<notin> set (columns df)) display_columns))"
  using assms display_frame_missing[OF assms(3)] by (simp add: fetch_body_def fetch_and_show_Inl)

section \<open>Whole runs\<close>

lemma script_head_unfold:
  assumes "time_span_block t w (selectbox time_span_options 1 (time_span_choice w)) = Inr (Some s, ed, pickers)"
  shows "script_head t w =
    (let r = selectbox region_options 0 (region_choice w);
         c = selectbox event_type_options 0 (event_choice w);
         q = query_string (query_params (strftime_Ymd s) (strftime_Ymd ed) r (region_filter r) c (event_filter c))
     in Inr ([SidebarHeader ''Filters'',
                   SidebarSelectbox ''Time Span'' (selectbox time_span_options 1 (time_span_choice w))]
                  @ pickers
                  @ [SidebarSelectbox ''Region'' r, SidebarSelectbox ''Event Type'' c,
                     Title ''UK Historical Events Dashboard (GDELT)'',
                     Markdown (display_message r (strftime_Ymd s) (strftime_Ymd ed)),
                     InfoBox (info_message q)], q))"
  using assms by (simp add: script_head_def date_strings_Some Let_def)

lemma widgets_ok_selections:
  assumes "widgets_ok w"
  shows "selectbox time_span_options 1 (time_span_choice w) \<in> set time_span_options"
    and "selectbox region_options 0 (region_choice w) \<in> set region_options"
    and "selectbox event_type_options 0 (event_choice w) \<in> set event_type_options"
  using assms by (intro selectbox_in_options; simp add: widgets_ok_def length_options)+

text \<open>
  For valid widget values and a current date more than 180 days after 0001-01-01, the head
  of the script does not raise, and the query it yields is the contract's.
\<close>

lemma script_head_contract:
  assumes "widgets_ok w" and "date_valid t" and "180 < toordinal t"
  shows "\<exists>page s_str e_str. script_head t w =
           Inr (page @ [InfoBox (info_message (query_string (spec_clauses s_str e_str
                         (selectbox region_options 0 (region_choice w))
                         (selectbox event_type_options 0 (event_choice w)))))],
                query_string (spec_clauses s_str e_str
                         (selectbox region_options 0 (region_choice w))
                         (selectbox event_type_options 0 (event_choice w))))"
proof -
  obtain s ed pickers where blk:
    "time_span_block t w (selectbox time_span_options 1 (time_span_choice w)) = Inr (Some s, ed, pickers)"
    using time_span_block_returns[OF widgets_ok_selections(1)[OF assms(1)] assms(2,3)] by blast
  define r where "r = selectbox region_options 0 (region_choice w)"
  define c where "c = selectbox event_type_options 0 (event_choice w)"
  define page where "page = [SidebarHeader ''Filters'',
                   SidebarSelectbox ''Time Span'' (selectbox time_span_options 1 (time_span_choice w))]
                  @ pickers
                  @ [SidebarSelectbox ''Region'' r, SidebarSelectbox ''Event Type'' c,
                     Title ''UK Historical Events Dashboard (GDELT)'',
                     Markdown (display_message r (strftime_Ymd s) (strftime_Ymd ed))]"
  have "query_params (strftime_Ymd s) (strftime_Ymd ed) r (region_filter r) c (event_filter c)
        = spec_clauses (strftime_Ymd s) (strftime_Ymd ed) r c"
    unfolding r_def c_def
    by (rule query_params_refines_spec[OF widgets_ok_selections(2,3)[OF assms(1)]])
  then have "script_head t w = Inr (page @ [InfoBox (info_message (query_string
               (spec_clauses (strftime_Ymd s) (strftime_Ymd ed) r c)))],
             query_string (spec_clauses (strftime_Ymd s) (strftime_Ymd ed) r c))"
    using script_head_unfold[OF blk] by (simp add: Let_def page_def r_def c_def)
  then show ?thesis
    unfolding r_def c_def by blast
qed

text \<open>
  C1: With valid widget values and a current date more than 180 days after 0001-01-01, a run
  never raises: the page shows the sidebar, the title, the range, the query of the
  contract (\<open>spec_clauses\<close>) for the chosen region and category, and then the fetch
  section for exactly that query.
\<close>

theorem run_shows_contract_query:
  assumes "widgets_ok w" and "date_valid (now e)" and "180 < toordinal (now e)"
  shows "\<exists>page s_str e_str.
           run e w = Finished (page @ [InfoBox (info_message (query_string (spec_clauses s_str e_str
                         (selectbox region_options 0 (region_choice w))
                         (selectbox event_type_options 0 (event_choice w)))))]
                       @ fetch_and_show (search e) (query_string (spec_clauses s_str e_str
                         (selectbox region_options 0 (region_choice w))
                         (selectbox event_type_options 0 (event_choice w)))))"
proof -
  obtain page s_str e_str where "script_head (now e) w =
           Inr (page @ [InfoBox (info_message (query_string (spec_clauses s_str e_str
                         (selectbox region_options 0 (region_choice w))
                         (selectbox event_type_options 0 (event_choice w)))))],
                query_string (spec_clauses s_str e_str
                         (selectbox region_options 0 (region_choice w))
                         (selectbox event_type_options 0 (event_choice w))))"
    using script_head_contract[OF assms] by blast
  then show ?thesis by (auto simp: run_def)
qed

text \<open>
  C2: A custom range sends exactly the dates the user picked, unchecked: for any two dates in
  the pickers, in either order, the run finishes and its query has \<open>DATE>\<close> the start
  date and \<open>DATE<\<close> the end date, followed by the contract's region and event clauses;
  the query shown is the one fetched.
\<close>

theorem custom_range_query:
  assumes "widgets_ok w" and "time_span_choice w = Some 3"
    and "start_choice w = Some a" and "end_choice w = Some b"
    and "date_valid (now e)" and "90 < toordinal (now e)"
  shows "\<exists>page. run e w = Finished (page
           @ [InfoBox (info_message (query_string (spec_clauses (strftime_Ymd a) (strftime_Ymd b)
                 (selectbox region_options 0 (region_choice w)) (selectbox event_type_options 0 (event_choice w)))))]
           @ fetch_and_show (search e) (query_string (spec_clauses (strftime_Ymd a) (strftime_Ymd b)
                 (selectbox region_options 0 (region_choice w)) (selectbox event_type_options 0 (event_choice w)))))"
proof -
  obtain dflt where d: "dt_sub_days (now e) 90 = Inr dflt"
    by (rule dt_sub_days_valid[OF assms(5) _ assms(6)]) simp_all
  have sel: "selectbox time_span_options 1 (time_span_choice w) = ''Custom Date Range''"
    using assms(2) by (simp add: selectbox_def time_span_options_def)
  have blk: "time_span_block (now e) w (selectbox time_span_options 1 (time_span_choice w))
             = Inr (Some (combine a time_min), combine b time_max,
                    [SidebarDateInput ''Start Date'' a, SidebarDateInput ''End Date'' b])"
    unfolding sel time_span_block_custom using d assms(3,4) by (simp add: date_input_def)
  have "query_params (strftime_Ymd a) (strftime_Ymd b) (selectbox region_options 0 (region_choice w))
          (region_filter (selectbox region_options 0 (region_choice w)))
          (selectbox event_type_options 0 (event_choice w)) (event_filter (selectbox event_type_options 0 (event_choice w)))
        = spec_clauses (strftime_Ymd a) (strftime_Ymd b) (selectbox region_options 0 (region_choice w))
            (selectbox event_type_options 0 (event_choice w))"
    by (rule query_params_refines_spec[OF widgets_ok_selections(2,3)[OF assms(1)]])
  then show ?thesis
    using script_head_unfold[OF blk] by (simp add: run_def Let_def)
qed

section \<open>Witnesses\<close>

theorem fetch_search_error_witness:
  "(\<lambda>q::string. Inl (SearchError ''offline'') :: frame py) ''Q'' = Inl (SearchError ''offline'')
   \<and> fetch_and_show (\<lambda>q::string. Inl (SearchError ''offline'') :: frame py) ''Q'' = fetching # error_boxes (SearchError ''offline'')"
proof -
  have h: "(\<lambda>q::string. Inl (SearchError ''offline'') :: frame py) ''Q'' = Inl (SearchError ''offline'')" by simp
  show ?thesis using fetch_search_error[of "(\<lambda>q::string. Inl (SearchError ''offline'') :: frame py)" "''Q''" "SearchError ''offline''"] h by blast
qed

theorem fetch_no_events_witness:
  "(\<lambda>q::string. Inr (\<lparr>columns = display_columns, rows = []\<rparr>) :: frame py) ''Q'' = Inr \<lparr>columns = display_columns, rows = []\<rparr> \<and> frame_empty \<lparr>columns = display_columns, rows = []\<rparr>
   \<and> fetch_and_show (\<lambda>q::string. Inr (\<lparr>columns = display_columns, rows = []\<rparr>) :: frame py) ''Q''
       = [fetching, WarningBox ''No events found matching the selected criteria.'']"
proof -
  have h1: "(\<lambda>q::string. Inr (\<lparr>columns = display_columns, rows = []\<rparr>) :: frame py) ''Q'' = Inr \<lparr>columns = display_columns, rows = []\<rparr>" by simp
  have h2: "frame_empty \<lparr>columns = display_columns, rows = []\<rparr>" by (simp add: frame_empty_def)
  show ?thesis using fetch_no_events[of "(\<lambda>q::string. Inr (\<lparr>columns = display_columns, rows = []\<rparr>) :: frame py)" "''Q''" "\<lparr>columns = display_columns, rows = []\<rparr>"] h1 h2 by blast
qed

theorem fetch_events_shown_witness:
  "(\<lambda>q::string. Inr (\<lparr>columns = display_columns, rows = [[Val ''20240101'', Val ''POLICE'', Val ''PROTESTER'', Val ''145'', Val ''14'', Val ''-7.5'', Val ''4'', Val ''-3.2'', Val ''http://example.org'']]\<rparr>) :: frame py) ''Q'' = Inr \<lparr>columns = display_columns, rows = [[Val ''20240101'', Val ''POLICE'', Val ''PROTESTER'', Val ''145'', Val ''14'', Val ''-7.5'', Val ''4'', Val ''-3.2'', Val ''http://example.org'']]\<rparr> \<and> \<not> frame_empty \<lparr>columns = display_columns, rows = [[Val ''20240101'', Val ''POLICE'', Val ''PROTESTER'', Val ''145'', Val ''14'', Val ''-7.5'', Val ''4'', Val ''-3.2'', Val ''http://example.org'']]\<rparr>
   \<and> set display_columns \<subseteq> set (columns \<lparr>columns = display_columns, rows = [[Val ''20240101'', Val ''POLICE'', Val ''PROTESTER'', Val ''145'', Val ''14'', Val ''-7.5'', Val ''4'', Val ''-3.2'', Val ''http://example.org'']]\<rparr>)
   \<and> (\<exists>g col. get_column \<lparr>columns = display_columns, rows = [[Val ''20240101'', Val ''POLICE'', Val ''PROTESTER'', Val ''145'', Val ''14'', Val ''-7.5'', Val ''4'', Val ''-3.2'', Val ''http://example.org'']]\<rparr> ''EventRootCode'' = Inr col \<and>
           fetch_and_show (\<lambda>q::string. Inr (\<lparr>columns = display_columns, rows = [[Val ''20240101'', Val ''POLICE'', Val ''PROTESTER'', Val ''145'', Val ''14'', Val ''-7.5'', Val ''4'', Val ''-3.2'', Val ''http://example.org'']]\<rparr>) :: frame py) ''Q'' =
             [fetching, SuccessBox (''Found '' @ str_nat (frame_len \<lparr>columns = display_columns, rows = [[Val ''20240101'', Val ''POLICE'', Val ''PROTESTER'', Val ''145'', Val ''14'', Val ''-7.5'', Val ''4'', Val ''-3.2'', Val ''http://example.org'']]\<rparr>) @ '' events.''),
              DataframeView g, Subheader ''Event Code Distribution'', BarChart (value_counts col)]
           \<and> columns g = display_labels \<and> frame_len g = frame_len \<lparr>columns = display_columns, rows = [[Val ''20240101'', Val ''POLICE'', Val ''PROTESTER'', Val ''145'', Val ''14'', Val ''-7.5'', Val ''4'', Val ''-3.2'', Val ''http://example.org'']]\<rparr>
           \<and> sum_list (map snd (value_counts col)) + count_list col NaN = frame_len \<lparr>columns = display_columns, rows = [[Val ''20240101'', Val ''POLICE'', Val ''PROTESTER'', Val ''145'', Val ''14'', Val ''-7.5'', Val ''4'', Val ''-3.2'', Val ''http://example.org'']]\<rparr>)"
proof -
  have h1: "(\<lambda>q::string. Inr (\<lparr>columns = display_columns, rows = [[Val ''20240101'', Val ''POLICE'', Val ''PROTESTER'', Val ''145'', Val ''14'', Val ''-7.5'', Val ''4'', Val ''-3.2'', Val ''http://example.org'']]\<rparr>) :: frame py) ''Q'' = Inr \<lparr>columns = display_columns, rows = [[Val ''20240101'', Val ''POLICE'', Val ''PROTESTER'', Val ''145'', Val ''14'', Val ''-7.5'', Val ''4'', Val ''-3.2'', Val ''http://example.org'']]\<rparr>" by simp
  have h2: "\<not> frame_empty \<lparr>columns = display_columns, rows = [[Val ''20240101'', Val ''POLICE'', Val ''PROTESTER'', Val ''145'', Val ''14'', Val ''-7.5'', Val ''4'', Val ''-3.2'', Val ''http://example.org'']]\<rparr>" by (simp add: frame_empty_def display_columns_def)
  have h3: "set display_columns \<subseteq> set (columns \<lparr>columns = display_columns, rows = [[Val ''20240101'', Val ''POLICE'', Val ''PROTESTER'', Val ''145'', Val ''14'', Val ''-7.5'', Val ''4'', Val ''-3.2'', Val ''http://example.org'']]\<rparr>)" by simp
  show ?thesis using fetch_events_shown[of "(\<lambda>q::string. Inr (\<lparr>columns = display_columns, rows = [[Val ''20240101'', Val ''POLICE'', Val ''PROTESTER'', Val ''145'', Val ''14'', Val ''-7.5'', Val ''4'', Val ''-3.2'', Val ''http://example.org'']]\<rparr>) :: frame py)" "''Q''" "\<lparr>columns = display_columns, rows = [[Val ''20240101'', Val ''POLICE'', Val ''PROTESTER'', Val ''145'', Val ''14'', Val ''-7.5'', Val ''4'', Val ''-3.2'', Val ''http://example.org'']]\<rparr>"] h1 h2 h3 by blast
qed

theorem fetch_missing_column_caught_witness:
  "(\<lambda>q::string. Inr (\<lparr>columns = [''SQLDATE''], rows = [[Val ''20240101'']]\<rparr>) :: frame py) ''Q'' = Inr \<lparr>columns = [''SQLDATE''], rows = [[Val ''20240101'']]\<rparr> \<and> \<not> frame_empty \<lparr>columns = [''SQLDATE''], rows = [[Val ''20240101'']]\<rparr>
   \<and> \<not> set display_columns \<subseteq> set (columns \<lparr>columns = [''SQLDATE''], rows = [[Val ''20240101'']]\<rparr>)
   \<and> fetch_and_show (\<lambda>q::string. Inr (\<lparr>columns = [''SQLDATE''], rows = [[Val ''20240101'']]\<rparr>) :: frame py) ''Q'' =
         [fetching, SuccessBox (''Found '' @ str_nat (frame_len \<lparr>columns = [''SQLDATE''], rows = [[Val ''20240101'']]\<rparr>) @ '' events.'')]
         @ error_boxes (KeyError (filter (\<lambda>c. c \<notin> set (columns \<lparr>columns = [''SQLDATE''], rows = [[Val ''20240101'']]\<rparr>)) display_columns))"
proof -
  have h1: "(\<lambda>q::string. Inr (\<lparr>columns = [''SQLDATE''], rows = [[Val ''20240101'']]\<rparr>) :: frame py) ''Q'' = Inr \<lparr>columns = [''SQLDATE''], rows = [[Val ''20240101'']]\<rparr>" by simp
  have h2: "\<not> frame_empty \<lparr>columns = [''SQLDATE''], rows = [[Val ''20240101'']]\<rparr>" by (simp add: frame_empty_def)
  have h3: "\<not> set display_columns \<subseteq> set (columns \<lparr>columns = [''SQLDATE''], rows = [[Val ''20240101'']]\<rparr>)" by (simp add: display_columns_def)
  show ?thesis using fetch_missing_column_caught[of "(\<lambda>q::string. Inr (\<lparr>columns = [''SQLDATE''], rows = [[Val ''20240101'']]\<rparr>) :: frame py)" "''Q''" "\<lparr>columns = [''SQLDATE''], rows = [[Val ''20240101'']]\<rparr>"] h1 h2 h3 by blast
qed

theorem run_shows_contract_query_witness:
  "widgets_ok untouched \<and> date_valid (now \<lparr>now = \<lparr>year = 2024, month = 4, day = 1, hour = 10, minute = 0, second = 0, microsecond = 0\<rparr>, search = (\<lambda>q::string. Inl (SearchError ''offline'') :: frame py)\<rparr>) \<and> 180 < toordinal (now \<lparr>now = \<lparr>year = 2024, month = 4, day = 1, hour = 10, minute = 0, second = 0, microsecond = 0\<rparr>, search = (\<lambda>q::string. Inl (SearchError ''offline'') :: frame py)\<rparr>)
   \<and> (\<exists>page s_str e_str.
        run \<lparr>now = \<lparr>year = 2024, month = 4, day = 1, hour = 10, minute = 0, second = 0, microsecond = 0\<rparr>, search = (\<lambda>q::string. Inl (SearchError ''offline'') :: frame py)\<rparr> untouched = Finished (page @ [InfoBox (info_message (query_string (spec_clauses s_str e_str
                         (selectbox region_options 0 (region_choice untouched))
                         (selectbox event_type_options 0 (event_choice untouched)))))]
                       @ fetch_and_show (search \<lparr>now = \<lparr>year = 2024, month = 4, day = 1, hour = 10, minute = 0, second = 0, microsecond = 0\<rparr>, search = (\<lambda>q::string. Inl (SearchError ''offline'') :: frame py)\<rparr>) (query_string (spec_clauses s_str e_str
                         (selectbox region_options 0 (region_choice untouched))
                         (selectbox event_type_options 0 (event_choice untouched))))))"
proof -
  have h1: "widgets_ok untouched" by (rule untouched_ok)
  have h2: "date_valid (now \<lparr>now = \<lparr>year = 2024, month = 4, day = 1, hour = 10, minute = 0, second = 0, microsecond = 0\<rparr>, search = (\<lambda>q::string. Inl (SearchError ''offline'') :: frame py)\<rparr>)" and h3: "180 < toordinal (now \<lparr>now = \<lparr>year = 2024, month = 4, day = 1, hour = 10, minute = 0, second = 0, microsecond = 0\<rparr>, search = (\<lambda>q::string. Inl (SearchError ''offline'') :: frame py)\<rparr>)"
    by (simp_all add: calendar_eval)
  show ?thesis using run_shows_contract_query[OF h1 h2 h3] h1 h2 h3 by blast
qed

theorem custom_range_query_witness:
  "widgets_ok \<lparr>time_span_choice = Some 3, start_choice = Some \<lparr>year = 2024, month = 3, day = 1\<rparr>,
                end_choice = Some \<lparr>year = 2024, month = 1, day = 1\<rparr>, region_choice = Some 2, event_choice = Some 1\<rparr>
   \<and> date_valid \<lparr>year = 2024, month = 4, day = 1, hour = 10, minute = 0, second = 0, microsecond = 0\<rparr>
   \<and> 90 < toordinal \<lparr>year = 2024, month = 4, day = 1, hour = 10, minute = 0, second = 0, microsecond = 0\<rparr>
   \<and> (\<exists>page. run \<lparr>now = \<lparr>year = 2024, month = 4, day = 1, hour = 10, minute = 0, second = 0, microsecond = 0\<rparr>,
                      search = (\<lambda>q::string. Inl (SearchError ''offline'') :: frame py)\<rparr>
                 \<lparr>time_span_choice = Some 3, start_choice = Some \<lparr>year = 2024, month = 3, day = 1\<rparr>,
                  end_choice = Some \<lparr>year = 2024, month = 1, day = 1\<rparr>, region_choice = Some 2, event_choice = Some 1\<rparr>
        = Finished (page @ [InfoBox (info_message (query_string (spec_clauses (strftime_Ymd \<lparr>year = 2024, month = 3, day = 1\<rparr>)
                 (strftime_Ymd \<lparr>year = 2024, month = 1, day = 1\<rparr>) ''Scotland'' ''Protests'')))]
           @ fetch_and_show (\<lambda>q::string. Inl (SearchError ''offline'') :: frame py)
               (query_string (spec_clauses (strftime_Ymd \<lparr>year = 2024, month = 3, day = 1\<rparr>)
                 (strftime_Ymd \<lparr>year = 2024, month = 1, day = 1\<rparr>) ''Scotland'' ''Protests''))))"
proof -
  have h1: "widgets_ok \<lparr>time_span_choice = Some 3, start_choice = Some \<lparr>year = 2024, month = 3, day = 1\<rparr>, end_choice = Some \<lparr>year = 2024, month = 1, day = 1\<rparr>, region_choice = Some 2, event_choice = Some 1\<rparr>"
    by (simp add: widgets_ok_def calendar_eval)
  have h2: "time_span_choice \<lparr>time_span_choice = Some 3, start_choice = Some \<lparr>year = 2024, month = 3, day = 1\<rparr>, end_choice = Some \<lparr>year = 2024, month = 1, day = 1\<rparr>, region_choice = Some 2, event_choice = Some 1\<rparr> = Some 3"
    "start_choice \<lparr>time_span_choice = Some 3, start_choice = Some \<lparr>year = 2024, month = 3, day = 1\<rparr>, end_choice = Some \<lparr>year = 2024, month = 1, day = 1\<rparr>, region_choice = Some 2, event_choice = Some 1\<rparr> = Some \<lparr>year = 2024, month = 3, day = 1\<rparr>"
    "end_choice \<lparr>time_span_choice = Some 3, start_choice = Some \<lparr>year = 2024, month = 3, day = 1\<rparr>, end_choice = Some \<lparr>year = 2024, month = 1, day = 1\<rparr>, region_choice = Some 2, event_choice = Some 1\<rparr> = Some \<lparr>year = 2024, month = 1, day = 1\<rparr>"
    by simp_all
  have h3: "date_valid (now \<lparr>now = \<lparr>year = 2024, month = 4, day = 1, hour = 10, minute = 0, second = 0, microsecond = 0\<rparr>, search = (\<lambda>q::string. Inl (SearchError ''offline'') :: frame py)\<rparr>)"
    by (simp add: calendar_eval)
  have h4: "90 < toordinal (now \<lparr>now = \<lparr>year = 2024, month = 4, day = 1, hour = 10, minute = 0, second = 0, microsecond = 0\<rparr>, search = (\<lambda>q::string. Inl (SearchError ''offline'') :: frame py)\<rparr>)"
    by (simp add: calendar_eval)
  have r: "selectbox region_options 0 (Some 2) = ''Scotland''" "selectbox event_type_options 0 (Some 1) = ''Protests''"
    by (simp_all add: selectbox_def region_options_def event_type_options_def)
  show ?thesis
    using custom_range_query[OF h1 h2 h3 h4] h1 h3 h4 r by simp
qed

end
