(* ===== verification/Ordinals.thy ===== *)
theory Ordinals
  imports Calendar
begin

text \<open>
  The calendar facts behind the dates of \<open>src/app.py\<close> (lines 16--36): CPython's
  \<open>_ord2ymd\<close> always yields a month in 1..12 and a day within that month, so
  \<open>date.fromordinal\<close> maps the ordinals \<open>1 .. _MAXORDINAL\<close> onto the valid dates and is
  the inverse of \<open>date.toordinal\<close>; every \<open>datetime\<close> the script's \<open>timedelta\<close>
  subtraction returns is therefore valid; and the \<open>%Y%m%d\<close> keys of the query order dates
  as the calendar does.  The month estimate \<open>(n + 50) >> 5\<close> of \<open>_ord2ymd\<close> is shown to be
  at most one month ahead, which is what its single correction step relies on.
\<close>

section \<open>The month estimate of \<open>_ord2ymd\<close>\<close>

lemma month_estimate_bounds:
  assumes "0 \<le> e" "e < 365" "mo = drop_bit 5 (e + 50 :: int)"
  shows "32 * mo \<le> e + 50" "e + 50 < 32 * mo + 32"
proof -
  have "mo = (e + 50) div 32" using assms(3) by (simp add: drop_bit_eq_div)
  then show "32 * mo \<le> e + 50" "e + 50 < 32 * mo + 32"
    by linarith+
qed

lemma month_estimate_fits:
  assumes "0 \<le> e" "e < 365" "mo = drop_bit 5 (e + 50 :: int)"
  shows "DAYS_BEFORE_MONTH ! nat mo + (if mo > 2 \<and> L then 1 else 0) \<le> e \<Longrightarrow>
         e - (DAYS_BEFORE_MONTH ! nat mo + (if mo > 2 \<and> L then 1 else 0))
           < DAYS_IN_MONTH ! nat mo + (if mo = 2 \<and> L then 1 else 0)"
    and "e < DAYS_BEFORE_MONTH ! nat mo + (if mo > 2 \<and> L then 1 else 0) \<Longrightarrow>
         DAYS_BEFORE_MONTH ! nat (mo - 1) + (if mo - 1 > 2 \<and> L then 1 else 0) \<le> e"
proof -
  have b: "32 * mo \<le> e + 50" "e + 50 < 32 * mo + 32"
    using month_estimate_bounds[OF assms] by simp_all
  have r: "1 \<le> mo" "mo \<le> 12"
    using month_estimate_range[OF assms(1,2)] assms(3) by simp_all
  have c: "mo = 1 \<or> mo = 2 \<or> mo = 3 \<or> mo = 4 \<or> mo = 5 \<or> mo = 6 \<or> mo = 7 \<or> mo = 8 \<or> mo = 9
           \<or> mo = 10 \<or> mo = 11 \<or> mo = 12"
    using r by (rule month_cases_12)
  show "DAYS_BEFORE_MONTH ! nat mo + (if mo > 2 \<and> L then 1 else 0) \<le> e \<Longrightarrow>
         e - (DAYS_BEFORE_MONTH ! nat mo + (if mo > 2 \<and> L then 1 else 0))
           < DAYS_IN_MONTH ! nat mo + (if mo = 2 \<and> L then 1 else 0)"
    using c b assms(2) by (elim disjE) (simp_all add: DAYS_BEFORE_MONTH_def DAYS_IN_MONTH_def)
  show "e < DAYS_BEFORE_MONTH ! nat mo + (if mo > 2 \<and> L then 1 else 0) \<Longrightarrow>
         DAYS_BEFORE_MONTH ! nat (mo - 1) + (if mo - 1 > 2 \<and> L then 1 else 0) \<le> e"
    using c b assms(1) by (elim disjE) (simp_all add: DAYS_BEFORE_MONTH_def DAYS_IN_MONTH_def)
qed

lemma days_in_month_adj:
  "days_in_month y m = DAYS_IN_MONTH ! nat m + (if m = 2 \<and> is_leap y then 1 else 0)"
  by (simp add: days_in_month_def DAYS_IN_MONTH_def)

lemma ord2ymd_month_day:
  assumes res: "ord2ymd n = (y, m, d)"
  shows "1 \<le> m \<and> m \<le> 12 \<and> 1 \<le> d \<and> d \<le> days_in_month y m"
proof -
  define q where "q = (n - 1) div 146097"
  define r where "r = (n - 1) mod 146097"
  define a where "a = r div 36524"
  define r1 where "r1 = r mod 36524"
  define b where "b = r1 div 1461"
  define r2 where "r2 = r1 mod 1461"
  define c where "c = r2 div 365"
  define e where "e = r2 mod 365"
  note sp = ord2ymd_split[OF q_def r_def a_def r1_def b_def r2_def c_def e_def]
  have dec: "r = 36524 * a + r1" "r1 = 1461 * b + r2" "r2 = 365 * c + e"
    by (simp_all add: a_def r1_def b_def r2_def c_def e_def)
  have rng: "0 \<le> r" "r < 146097" "0 \<le> r1" "r1 < 36524" "0 \<le> r2" "r2 < 1461" "0 \<le> e" "e < 365"
    by (simp_all add: r_def r1_def r2_def e_def)
  have ab: "0 \<le> a" "a \<le> 4" "0 \<le> b" "b \<le> 24" "0 \<le> c" "c \<le> 4"
    using dec rng by linarith+
  show ?thesis
  proof (cases "c = 4 \<or> a = 4")
    case True
    with sp res have "m = 12" "d = 31"
      by (simp_all add: Let_def)
    then show ?thesis by (simp add: days_in_month_def DAYS_IN_MONTH_def)
  next
    case False
    then have a3: "a \<le> 3" and c3: "c \<le> 3" using ab by auto
    define Y where "Y = q * 400 + 1 + a * 100 + b * 4 + c"
    define L where "L = (c = 3 \<and> (b \<noteq> 24 \<or> a = 3))"
    define mo where "mo = drop_bit 5 (e + 50)"
    define p where "p = DAYS_BEFORE_MONTH ! nat mo + (if mo > 2 \<and> L then 1 else 0)"
    have leap: "is_leap Y = L"
    proof -
      have "Y = (1 + 100 * a + 4 * b + c) + 400 * q" by (simp add: Y_def)
      then show ?thesis
        unfolding is_leap_shift L_def using ab a3 c3 by (simp add: is_leap_shift is_leap_cycle)
    qed
    have mo_rng: "1 \<le> mo" "mo \<le> 12"
      using month_estimate_range[of e] rng by (simp_all add: mo_def)
    have sp': "ord2ymd n = (if p > e
              then (Y, mo - 1, e - (p - (DAYS_IN_MONTH ! nat (mo - 1) + (if mo - 1 = 2 \<and> L then 1 else 0))) + 1)
              else (Y, mo, e - p + 1))"
      using sp False by (simp add: Let_def L_def mo_def p_def Y_def)
    note fits = month_estimate_fits[OF rng(7,8) mo_def, of L]
    show ?thesis
    proof (cases "p > e")
      case True
      with sp' res have md: "y = Y" "m = mo - 1"
        "d = e - (p - (DAYS_IN_MONTH ! nat (mo - 1) + (if mo - 1 = 2 \<and> L then 1 else 0))) + 1"
        by simp_all
      have "2 \<le> mo"
        and eq: "p - (DAYS_IN_MONTH ! nat (mo - 1) + (if mo - 1 = 2 \<and> L then 1 else 0))
         = DAYS_BEFORE_MONTH ! nat (mo - 1) + (if mo - 1 > 2 \<and> L then 1 else 0)"
        using month_back[of mo e L] mo_rng rng True by (simp_all add: p_def)
      moreover have "DAYS_BEFORE_MONTH ! nat (mo - 1) + (if mo - 1 > 2 \<and> L then 1 else 0) \<le> e"
        using fits(2) True by (simp add: p_def)
      ultimately show ?thesis
        using md mo_rng True leap by (simp add: days_in_month_adj)
    next
      case False
      with sp' res have md: "y = Y" "m = mo" "d = e - p + 1"
        by simp_all
      have "e - p < DAYS_IN_MONTH ! nat mo + (if mo = 2 \<and> L then 1 else 0)"
        using fits(1) False by (simp add: p_def)
      then show ?thesis
        using md mo_rng False leap by (simp add: days_in_month_adj)
    qed
  qed
qed

section \<open>Validity of \<open>fromordinal\<close> and the order of ordinals\<close>

lemma ymd2ord_year_bounds:
  assumes "1 \<le> m" "m \<le> 12" "1 \<le> d" "d \<le> days_in_month y m"
  shows "days_before_year y + 1 \<le> ymd2ord y m d" "ymd2ord y m d \<le> days_before_year (y + 1)"
  using days_before_month_bounds[OF assms(1,2), of y] assms(3,4) by (simp_all add: ymd2ord_def)

lemma days_before_month_mono:
  assumes "m \<le> m'" "m' \<le> 12" "0 \<le> m"
  shows "days_before_month y m \<le> days_before_month y m'"
proof -
  have "sorted DAYS_BEFORE_MONTH" "length DAYS_BEFORE_MONTH = 13"
    by (simp_all add: DAYS_BEFORE_MONTH_def)
  then have "DAYS_BEFORE_MONTH ! nat m \<le> DAYS_BEFORE_MONTH ! nat m'"
    using assms by (intro sorted_nth_mono) simp_all
  then show ?thesis using assms by (simp add: days_before_month_def)
qed

lemma days_before_month_succ:
  "1 \<le> m \<Longrightarrow> m < 12 \<Longrightarrow> days_before_month y (m + 1) = days_before_month y m + days_in_month y m"
  using month_cases_12[of m]
  by (auto simp: days_before_month_def days_in_month_def DAYS_BEFORE_MONTH_def DAYS_IN_MONTH_def)

lemma days_before_year_less: "y < y' \<Longrightarrow> days_before_year (y + 1) \<le> days_before_year y'"
  by (rule days_before_year_mono) simp

lemma ymd2ord_less:
  assumes "1 \<le> m" "m \<le> 12" "1 \<le> d" "d \<le> days_in_month y m"
    and "1 \<le> m'" "m' \<le> 12" "1 \<le> d'" "d' \<le> days_in_month y' m'"
    and "y < y' \<or> (y = y' \<and> (m < m' \<or> (m = m' \<and> d < d')))"
  shows "ymd2ord y m d < ymd2ord y' m' d'"
  using assms(9)
proof (elim disjE conjE)
  assume "y < y'"
  then show ?thesis
    using ymd2ord_year_bounds[OF assms(1-4)] ymd2ord_year_bounds[OF assms(5-8)]
      days_before_year_less[of y y'] by linarith
next
  assume "y = y'" "m < m'"
  then have "days_before_month y (m + 1) \<le> days_before_month y m'"
    using assms by (intro days_before_month_mono) simp_all
  then show ?thesis
    using days_before_month_succ[of m y] assms \<open>y = y'\<close> \<open>m < m'\<close>
    by (simp add: ymd2ord_def)
next
  assume "y = y'" "m = m'" "d < d'"
  then show ?thesis by (simp add: ymd2ord_def)
qed

lemma ymd2ord_inj:
  assumes "1 \<le> m" "m \<le> 12" "1 \<le> d" "d \<le> days_in_month y m"
    and "1 \<le> m'" "m' \<le> 12" "1 \<le> d'" "d' \<le> days_in_month y' m'"
    and "ymd2ord y m d = ymd2ord y' m' d'"
  shows "y = y' \<and> m = m' \<and> d = d'"
proof (rule ccontr)
  assume "\<not> (y = y' \<and> m = m' \<and> d = d')"
  then have "(y < y' \<or> (y = y' \<and> (m < m' \<or> (m = m' \<and> d < d'))))
           \<or> (y' < y \<or> (y' = y \<and> (m' < m \<or> (m' = m \<and> d' < d))))"
    by auto
  then show False
    using ymd2ord_less[OF assms(1-8)] ymd2ord_less[OF assms(5-8,1-4)] assms(9) by fastforce
qed

lemma date_valid_fromordinal:
  assumes "1 \<le> n" "n \<le> MAXORDINAL"
  shows "date_valid (fromordinal n)"
proof -
  obtain y m d where res: "ord2ymd n = (y, m, d)" by (cases "ord2ymd n") auto
  have md: "1 \<le> m" "m \<le> 12" "1 \<le> d" "d \<le> days_in_month y m"
    using ord2ymd_month_day[OF res] by simp_all
  have n: "ymd2ord y m d = n" by (rule ymd2ord_ord2ymd[OF res])
  have "days_before_year 1 = 0" "days_before_year 10000 = 3652059"
    by (simp_all add: days_before_year_def)
  moreover have "1 \<le> y"
  proof (rule ccontr)
    assume "\<not> 1 \<le> y"
    then have "days_before_year (y + 1) \<le> days_before_year 1" by (intro days_before_year_mono) simp
    then show False using ymd2ord_year_bounds(2)[OF md] n assms(1) \<open>days_before_year 1 = 0\<close> by simp
  qed
  moreover have "y \<le> 9999"
  proof (rule ccontr)
    assume "\<not> y \<le> 9999"
    then have "days_before_year 10000 \<le> days_before_year y" by (intro days_before_year_mono) simp
    then show False
      using ymd2ord_year_bounds(1)[OF md] n assms(2) \<open>days_before_year 10000 = 3652059\<close>
      by (simp add: MAXORDINAL_def)
  qed
  ultimately show ?thesis
    using md res by (simp add: date_valid_def fromordinal_def MINYEAR_def MAXYEAR_def)
qed

lemma date_valid_fields:
  assumes "date_valid d"
  shows "1 \<le> month d" "month d \<le> 12" "1 \<le> day d" "day d \<le> days_in_month (year d) (month d)"
  using assms by (simp_all add: date_valid_def)

section \<open>The numeric order of the \<open>%Y%m%d\<close> keys\<close>

lemma read_nat_append: "read_nat (xs @ ys) = read_nat xs * 10 ^ length ys + read_nat ys"
  by (induction ys rule: rev_induct) (simp_all add: read_nat_def)

lemma read_nat_strftime_Ymd:
  assumes "date_valid d"
  shows "int (read_nat (strftime_Ymd d)) = 10000 * year d + 100 * month d + day d"
proof -
  have v: "1 \<le> year d" "year d \<le> 9999" "1 \<le> month d" "month d \<le> 12" "1 \<le> day d"
    "day d \<le> days_in_month (year d) (month d)"
    using assms by (simp_all add: date_valid_def MINYEAR_def MAXYEAR_def)
  then have "day d \<le> 31" using days_in_month_le_31[of "month d" "year d"] by simp
  then have b: "nat (month d) < 10 ^ 2" "nat (day d) < 10 ^ 2"
    using v by simp_all
  note M = zpad_str_nat[OF b(1)] and D = zpad_str_nat[OF b(2)]
  show ?thesis
    using M D v by (simp add: strftime_Ymd_def read_nat_append)
qed

lemma key_order:
  fixes y m d y' m' d' :: int
  assumes "1 \<le> m" "m \<le> 12" "1 \<le> d" "d \<le> 31" "1 \<le> m'" "m' \<le> 12" "1 \<le> d'" "d' \<le> 31"
  shows "10000 * y + 100 * m + d < 10000 * y' + 100 * m' + d'
         \<longleftrightarrow> y < y' \<or> (y = y' \<and> (m < m' \<or> (m = m' \<and> d < d')))"
proof (cases "y = y'")
  case True
  then show ?thesis using assms by (cases "m = m'") auto
next
  case False
  then show ?thesis using assms by (cases "y < y'") auto
qed

section \<open>Properties\<close>

lemma toordinal_less_iff:
  assumes "date_valid d1" "date_valid d2"
  shows "toordinal d1 < toordinal d2 \<longleftrightarrow>
         year d1 < year d2 \<or> (year d1 = year d2 \<and> (month d1 < month d2
           \<or> (month d1 = month d2 \<and> day d1 < day d2)))"
proof
  assume "toordinal d1 < toordinal d2"
  show "year d1 < year d2 \<or> (year d1 = year d2 \<and> (month d1 < month d2
           \<or> (month d1 = month d2 \<and> day d1 < day d2)))"
  proof (rule ccontr)
    assume "\<not> (year d1 < year d2 \<or> (year d1 = year d2 \<and> (month d1 < month d2
           \<or> (month d1 = month d2 \<and> day d1 < day d2))))"
    then have "(year d2 < year d1 \<or> (year d2 = year d1 \<and> (month d2 < month d1
           \<or> (month d2 = month d1 \<and> day d2 < day d1))))
           \<or> (year d1 = year d2 \<and> month d1 = month d2 \<and> day d1 = day d2)"
      by auto
    then show False
      using ymd2ord_less[OF date_valid_fields[OF assms(2)] date_valid_fields[OF assms(1)]]
        \<open>toordinal d1 < toordinal d2\<close> by (auto simp: toordinal_def)
  qed
next
  assume "year d1 < year d2 \<or> (year d1 = year d2 \<and> (month d1 < month d2
           \<or> (month d1 = month d2 \<and> day d1 < day d2)))"
  then show "toordinal d1 < toordinal d2"
    using ymd2ord_less[OF date_valid_fields[OF assms(1)] date_valid_fields[OF assms(2)]]
    by (simp add: toordinal_def)
qed

lemma date_valid_dt_sub_days:
  assumes "dt_sub_days dt k = Inr r"
  shows "date_valid r" and "r = combine (fromordinal (toordinal dt - k)) (time_of dt)"
proof -
  have rng: "0 < toordinal dt - k" "toordinal dt - k \<le> MAXORDINAL"
    and r: "r = combine (fromordinal (toordinal dt - k)) (time_of dt)"
    using assms by (simp_all add: dt_sub_days_def Let_def split: if_splits)
  have "date_valid (combine x t) = date_valid x" for x :: date and t
    by (simp add: date_valid_def combine_def split: prod.splits)
  then show "date_valid r"
    using r rng by (simp add: date_valid_fromordinal)
  show "r = combine (fromordinal (toordinal dt - k)) (time_of dt)" by (rule r)
qed

text \<open>
  C19: Ordinals and dates: \<open>date.fromordinal\<close> and \<open>date.toordinal\<close> are inverse bijections between
  the ordinals \<open>1 .. _MAXORDINAL\<close> and the valid dates.
\<close>

theorem ordinal_bijection:
  "(1 \<le> n \<and> n \<le> MAXORDINAL \<longrightarrow> date_valid (fromordinal n) \<and> toordinal (fromordinal n) = n)
   \<and> (date_valid d \<longrightarrow> 1 \<le> toordinal d \<and> toordinal d \<le> MAXORDINAL
                        \<and> fromordinal (toordinal d) = date_of d)"
proof (intro conjI impI)
  assume "1 \<le> n \<and> n \<le> MAXORDINAL"
  then show "date_valid (fromordinal n)" by (simp add: date_valid_fromordinal)
  show "toordinal (fromordinal n) = n" by simp
next
  assume v: "date_valid d"
  then show "1 \<le> toordinal d" "toordinal d \<le> MAXORDINAL" by (simp_all add: toordinal_range)
  have f: "date_valid (fromordinal (toordinal d))"
    using toordinal_range[OF v] by (simp add: date_valid_fromordinal)
  have "toordinal (fromordinal (toordinal d)) = toordinal d" by simp
  then have "year (fromordinal (toordinal d)) = year d \<and> month (fromordinal (toordinal d)) = month d
             \<and> day (fromordinal (toordinal d)) = day d"
    using ymd2ord_inj[OF date_valid_fields[OF f] date_valid_fields[OF v]] by (simp add: toordinal_def)
  then show "fromordinal (toordinal d) = date_of d"
    by (simp add: date_of_def fromordinal_def split: prod.splits)
qed

text \<open>
  C20: Whatever \<open>dt - timedelta(days=k)\<close> returns is a valid \<open>datetime\<close> whose date is the
  \<open>k\<close>-th day before that of \<open>dt\<close>.
\<close>

theorem dt_sub_days_result_valid:
  assumes "dt_sub_days dt k = Inr r"
  shows "date_valid r \<and> date_of r = fromordinal (toordinal dt - k) \<and> time_of r = time_of dt"
proof -
  have "date_of (fromordinal n) = fromordinal n" for n
    by (simp add: date_of_def fromordinal_def split: prod.splits)
  then show ?thesis
    using date_valid_dt_sub_days[OF assms] by simp
qed

text \<open>
  C21: The \<open>%Y%m%d\<close> keys that the query sends order valid dates exactly as the calendar does:
  read as decimal numbers they compare as the ordinals, and the ordinals compare as
  \<open>(year, month, day)\<close> lexicographically.
\<close>

theorem strftime_key_order:
  assumes "date_valid d1" "date_valid d2"
  shows "(read_nat (strftime_Ymd d1) < read_nat (strftime_Ymd d2) \<longleftrightarrow> toordinal d1 < toordinal d2)
       \<and> (toordinal d1 < toordinal d2 \<longleftrightarrow>
          year d1 < year d2 \<or> (year d1 = year d2 \<and> (month d1 < month d2
           \<or> (month d1 = month d2 \<and> day d1 < day d2))))"
proof -
  have b1: "day d1 \<le> 31" and b2: "day d2 \<le> 31"
    using date_valid_fields[OF assms(1)] date_valid_fields[OF assms(2)]
      days_in_month_le_31[of "month d1" "year d1"] days_in_month_le_31[of "month d2" "year d2"]
    by simp_all
  have "read_nat (strftime_Ymd d1) < read_nat (strftime_Ymd d2)
        \<longleftrightarrow> int (read_nat (strftime_Ymd d1)) < int (read_nat (strftime_Ymd d2))"
    by simp
  also have "\<dots> \<longleftrightarrow> year d1 < year d2 \<or> (year d1 = year d2 \<and> (month d1 < month d2
           \<or> (month d1 = month d2 \<and> day d1 < day d2)))"
    unfolding read_nat_strftime_Ymd[OF assms(1)] read_nat_strftime_Ymd[OF assms(2)]
    using date_valid_fields[OF assms(1)] date_valid_fields[OF assms(2)] b1 b2
    by (intro key_order) simp_all
  finally show ?thesis
    using toordinal_less_iff[OF assms] by simp
qed

section \<open>Witnesses\<close>

theorem ordinal_bijection_witness:
  "(1 \<le> (738977::int) \<and> 738977 \<le> MAXORDINAL)
   \<and> date_valid (fromordinal 738977) \<and> toordinal (fromordinal 738977) = 738977
   \<and> date_valid \<lparr>year = 2024, month = 2, day = 29\<rparr>
   \<and> fromordinal (toordinal \<lparr>year = 2024, month = 2, day = 29\<rparr>) = \<lparr>year = 2024, month = 2, day = 29\<rparr>"
proof -
  have h1: "1 \<le> (738977::int) \<and> 738977 \<le> MAXORDINAL" by (simp add: MAXORDINAL_def)
  have h2: "date_valid \<lparr>year = 2024, month = 2, day = 29\<rparr>" by (simp add: calendar_eval)
  have "date_of \<lparr>year = 2024, month = 2, day = 29\<rparr> = \<lparr>year = 2024, month = 2, day = 29\<rparr>"
    by (simp add: date_of_def)
  then show ?thesis
    using ordinal_bijection[of 738977 "\<lparr>year = 2024, month = 2, day = 29\<rparr>"] h1 h2 by simp
qed

theorem dt_sub_days_result_valid_witness:
  "dt_sub_days \<lparr>year = 2024, month = 4, day = 1, hour = 10, minute = 0, second = 0, microsecond = 0\<rparr> 30
     = Inr \<lparr>year = 2024, month = 3, day = 2, hour = 10, minute = 0, second = 0, microsecond = 0\<rparr>
   \<and> date_valid \<lparr>year = 2024, month = 3, day = 2, hour = 10, minute = 0, second = 0, microsecond = 0\<rparr>"
proof -
  have h: "dt_sub_days \<lparr>year = 2024, month = 4, day = 1, hour = 10, minute = 0, second = 0, microsecond = 0\<rparr> 30
     = Inr \<lparr>year = 2024, month = 3, day = 2, hour = 10, minute = 0, second = 0, microsecond = 0\<rparr>"
    by (simp add: calendar_eval)
  show ?thesis using dt_sub_days_result_valid[OF h] h by blast
qed

theorem strftime_key_order_witness:
  "date_valid \<lparr>year = 2023, month = 12, day = 31\<rparr> \<and> date_valid \<lparr>year = 2024, month = 1, day = 1\<rparr>
   \<and> (read_nat (strftime_Ymd \<lparr>year = 2023, month = 12, day = 31\<rparr>)
        < read_nat (strftime_Ymd \<lparr>year = 2024, month = 1, day = 1\<rparr>)
      \<longleftrightarrow> toordinal \<lparr>year = 2023, month = 12, day = 31\<rparr> < toordinal \<lparr>year = 2024, month = 1, day = 1\<rparr>)"
proof -
  have h1: "date_valid \<lparr>year = 2023, month = 12, day = 31\<rparr>" by (simp add: calendar_eval)
  have h2: "date_valid \<lparr>year = 2024, month = 1, day = 1\<rparr>" by (simp add: calendar_eval)
  show ?thesis using strftime_key_order[OF h1 h2] h1 h2 by blast
qed

end
