(* ===== verification/Session.thy ===== *)
theory Session
  imports Dashboard Ordinals
begin

text \<open>
  The rerun loop around \<open>src/app.py\<close> (spec, section 5): Streamlit keeps the value of every
  widget between runs and re-executes the whole script whenever the user changes one; the
  page shown is the page of that run.  A session state is the widget choices and the last
  run's result.  The user can only operate a widget the current page renders, and only
  with a value of its domain (an index among the options, a valid date within ten years of
  the picker's value, which the session computes from the time of the run that rendered
  it, \<open>run_at\<close>); each interaction is one step of \<open>session_step\<close>, parameterised by
  the environment of the rerun (the time and the search function may change between
  runs).  \<open>play\<close> executes a list of
  interactions, returning \<open>None\<close> at the first one the page does not offer.
\<close>

section \<open>Sessions, interactions and reruns\<close>

record session =
  choices :: widgets
  shown :: run_result
  run_at :: datetime

fun elements :: "run_result \<Rightarrow> element list" where
  "elements (Finished p) = p"
| "elements (Crashed ex p) = p"

fun widget_label :: "element \<Rightarrow> string option" where
  "widget_label (SidebarSelectbox l v) = Some l"
| "widget_label (SidebarDateInput l d) = Some l"
| "widget_label el = None"

definition rendered :: "string \<Rightarrow> element list \<Rightarrow> bool" where
  "rendered l p \<longleftrightarrow> Some l \<in> set (map widget_label p)"

datatype interaction =
    PickTimeSpan nat
  | PickStart date
  | PickEnd date
  | PickRegion nat
  | PickEvent nat

fun apply_interaction :: "widgets \<Rightarrow> interaction \<Rightarrow> widgets" where
  "apply_interaction w (PickTimeSpan i) = w\<lparr>time_span_choice := Some i\<rparr>"
| "apply_interaction w (PickStart d) = w\<lparr>start_choice := Some d\<rparr>"
| "apply_interaction w (PickEnd d) = w\<lparr>end_choice := Some d\<rparr>"
| "apply_interaction w (PickRegion i) = w\<lparr>region_choice := Some i\<rparr>"
| "apply_interaction w (PickEvent i) = w\<lparr>event_choice := Some i\<rparr>"

text \<open>
  \<open>st.date_input(label, value)\<close> without \<open>min_value\<close>/\<open>max_value\<close> accepts the dates
  from \<open>value - relativedelta(years=10)\<close> to \<open>value + relativedelta(years=10)\<close>;
  \<open>relativedelta\<close> keeps month and day and clips the day to the length of the month
  (29 February becomes 28 February).  Dates compare as \<open>(year, month, day)\<close>.
\<close>

definition shift_years :: "int \<Rightarrow> date \<Rightarrow> date" where
  "shift_years k d =
     \<lparr>year = year d + k, month = month d, day = min (day d) (days_in_month (year d + k) (month d))\<rparr>"

definition date_le :: "date \<Rightarrow> date \<Rightarrow> bool" where
  "date_le a b \<longleftrightarrow> year a < year b \<or> (year a = year b \<and> (month a < month b \<or> (month a = month b \<and> day a \<le> day b)))"

definition in_picker_range :: "date \<Rightarrow> date \<Rightarrow> bool" where
  "in_picker_range value d \<longleftrightarrow> date_le (shift_years (-10) value) d \<and> date_le d (shift_years 10 value)"

text \<open>
  What the page of a run at time \<open>t\<close> lets the user do: operate a rendered widget with a
  value of its domain.  The start picker's value is \<open>t - timedelta(days=90)\<close> (line 26),
  the end picker's is \<open>t\<close> (line 27).
\<close>

fun offered :: "datetime \<Rightarrow> element list \<Rightarrow> interaction \<Rightarrow> bool" where
  "offered t p (PickTimeSpan i) \<longleftrightarrow> rendered ''Time Span'' p \<and> i < length time_span_options"
| "offered t p (PickStart d) \<longleftrightarrow> rendered ''Start Date'' p \<and> date_valid d
     \<and> (case dt_sub_days t 90 of Inr dflt \<Rightarrow> in_picker_range (date_of dflt) d | Inl ex \<Rightarrow> False)"
| "offered t p (PickEnd d) \<longleftrightarrow> rendered ''End Date'' p \<and> date_valid d \<and> in_picker_range (date_of t) d"
| "offered t p (PickRegion i) \<longleftrightarrow> rendered ''Region'' p \<and> i < length region_options"
| "offered t p (PickEvent i) \<longleftrightarrow> rendered ''Event Type'' p \<and> i < length event_type_options"

definition first_load :: "env \<Rightarrow> session" where
  "first_load e = \<lparr>choices = untouched, shown = run e untouched, run_at = now e\<rparr>"

inductive session_step :: "env \<Rightarrow> session \<Rightarrow> session \<Rightarrow> bool" where
  interact: "offered (run_at s) (elements (shown s)) a \<Longrightarrow>
     session_step e s \<lparr>choices = apply_interaction (choices s) a,
                       shown = run e (apply_interaction (choices s) a), run_at = now e\<rparr>"

inductive reachable :: "session \<Rightarrow> bool" where
  start: "reachable (first_load e)"
| step: "reachable s \<Longrightarrow> session_step e s t \<Longrightarrow> reachable t"

inductive_cases session_stepE: "session_step e s t"

definition after :: "env \<Rightarrow> session \<Rightarrow> interaction \<Rightarrow> session" where
  "after e s a = \<lparr>choices = apply_interaction (choices s) a, shown = run e (apply_interaction (choices s) a),
                   run_at = now e\<rparr>"

fun play :: "env \<Rightarrow> session \<Rightarrow> interaction list \<Rightarrow> session option" where
  "play e s [] = Some s"
| "play e s (a # as) = (if offered (run_at s) (elements (shown s)) a then play e (after e s a) as else None)"

section \<open>Runs seen from the session\<close>

lemma run_prefix:
  "\<exists>rest. elements (run e w) =
     [SidebarHeader ''Filters'', SidebarSelectbox ''Time Span'' (selectbox time_span_options 1 (time_span_choice w))] @ rest"
  by (simp add: run_def script_head_def Let_def split: sum.split prod.split)

lemma time_span_block_congr:
  assumes "\<And>dflt. dt_sub_days t0 90 = Inr dflt \<Longrightarrow>
             date_input (date_of dflt) (start_choice w) = date_input (date_of dflt) (start_choice w')"
    and "date_input (date_of t0) (end_choice w) = date_input (date_of t0) (end_choice w')"
  shows "time_span_block t0 w sel = time_span_block t0 w' sel"
  using assms by (cases "dt_sub_days t0 90") (simp_all add: time_span_block_def Let_def)

lemma run_congr:
  assumes "selectbox time_span_options 1 (time_span_choice w) = selectbox time_span_options 1 (time_span_choice w')"
    and "selectbox region_options 0 (region_choice w) = selectbox region_options 0 (region_choice w')"
    and "selectbox event_type_options 0 (event_choice w) = selectbox event_type_options 0 (event_choice w')"
    and "time_span_block (now e) w (selectbox time_span_options 1 (time_span_choice w'))
         = time_span_block (now e) w' (selectbox time_span_options 1 (time_span_choice w'))"
  shows "run e w = run e w'"
  unfolding run_def script_head_def Let_def using assms by (simp only:)

lemma apply_interaction_ok:
  "widgets_ok w \<Longrightarrow> offered t p a \<Longrightarrow> widgets_ok (apply_interaction w a)"
  by (cases a) (simp_all add: widgets_ok_def length_options)

lemma session_step_ok:
  assumes "session_step e s t" and "widgets_ok (choices s)"
  shows "widgets_ok (choices t) \<and> shown t = run e (choices t)"
  using assms by (auto elim!: session_stepE intro: apply_interaction_ok)

lemma in_picker_range_self: "in_picker_range d d"
  by (simp add: in_picker_range_def date_le_def shift_years_def)

lemma date_valid_date_of: "date_valid d \<Longrightarrow> date_valid (date_of d)"
  by (simp add: date_valid_def date_of_def)

lemma date_input_valid:
  "date_valid dflt \<Longrightarrow> pred_option date_valid c \<Longrightarrow> date_valid (date_input (date_of dflt) c)"
  by (cases c) (simp_all add: date_input_def date_valid_date_of)

lemma play_steps: "play e s as = Some t \<Longrightarrow> (session_step e ^^ length as) s t"
proof (induction as arbitrary: s)
  case Nil
  then show ?case by simp
next
  case (Cons a as)
  then have "offered (run_at s) (elements (shown s)) a" and "play e (after e s a) as = Some t"
    by (simp_all split: if_splits)
  moreover have "session_step e s (after e s a)"
    unfolding after_def by (rule session_step.interact) fact
  ultimately show ?case using Cons.IH[of "after e s a"] relpowp_Suc_I2[of "session_step e" s "after e s a"] by simp
qed

lemma reachable_shows_run: "reachable s \<Longrightarrow> widgets_ok (choices s) \<and> (\<exists>e. shown s = run e (choices s))"
proof (induction rule: reachable.induct)
  case (start e)
  then show ?case by (auto simp: first_load_def untouched_ok)
next
  case (step s e t)
  then show ?case using session_step_ok by blast
qed

lemma time_span_rendered: "rendered ''Time Span'' (elements (run e w))"
  using run_prefix[of e w] by (auto simp: rendered_def)

lemma custom_run_renders:
  assumes "time_span_choice w = Some 3" and "dt_sub_days (now e) 90 = Inr dflt"
  shows "rendered ''Start Date'' (elements (run e w)) \<and> rendered ''End Date'' (elements (run e w))
         \<and> rendered ''Region'' (elements (run e w)) \<and> rendered ''Event Type'' (elements (run e w))"
proof -
  have "selectbox time_span_options 1 (time_span_choice w) = ''Custom Date Range''"
    using assms(1) by (simp add: selectbox_def time_span_options_def)
  then show ?thesis
    using assms(2)
    by (simp add: run_def script_head_def Let_def time_span_block_custom date_strings_Some rendered_def)
qed

text \<open>
  C23: Any configuration the widgets can take is reached from any reachable session: six
  changes (choose the custom range so that the date pickers are rendered, set both dates,
  the region and the category, then the time span) lead to the page that configuration
  shows.  The chosen dates must lie in the pickers' ranges, ten years around their values
  \<open>now - 90 days\<close> and \<open>now\<close>; the start picker's value must exist, which is the case
  when the current date lies more than 90 days after 0001-01-01.
\<close>

theorem any_configuration_reachable:
  assumes "reachable s" and "widgets_ok w" and "date_valid (now e)"
    and "dt_sub_days (now e) 90 = Inr dflt"
    and "pred_option (in_picker_range (date_of dflt)) (start_choice w)"
    and "pred_option (in_picker_range (date_of (now e))) (end_choice w)"
  shows "\<exists>t. (session_step e ^^ 6) s t \<and> shown t = run e w"
proof -
  note d = assms(4)
  have vd: "date_valid dflt" by (rule date_valid_dt_sub_days(1)[OF d])
  define x where "x = date_input (date_of dflt) (start_choice w)"
  define y where "y = date_input (date_of (now e)) (end_choice w)"
  define ti where "ti = (case time_span_choice w of None \<Rightarrow> 1 | Some i \<Rightarrow> i)"
  define ri where "ri = (case region_choice w of None \<Rightarrow> 0 | Some i \<Rightarrow> i)"
  define ei where "ei = (case event_choice w of None \<Rightarrow> 0 | Some i \<Rightarrow> i)"
  have ok: "date_valid x" "date_valid y" "ti < 4" "ri < 5" "ei < 5"
    using assms(2,3) vd
    by (auto simp: x_def y_def ti_def ri_def ei_def widgets_ok_def date_input_valid split: option.split)
  have rng: "in_picker_range (date_of dflt) x" "in_picker_range (date_of (now e)) y"
    using assms(5,6) by (auto simp: x_def y_def date_input_def in_picker_range_self split: option.split)
  have ts: "rendered ''Time Span'' (elements (shown s))"
    using reachable_shows_run[OF assms(1)] time_span_rendered by auto
  note cr = custom_run_renders[OF _ d]
  define W where "W = choices s\<lparr>start_choice := Some x, end_choice := Some y,
                    region_choice := Some ri, event_choice := Some ei, time_span_choice := Some ti\<rparr>"
  have play: "play e s [PickTimeSpan 3, PickStart x, PickEnd y, PickRegion ri, PickEvent ei, PickTimeSpan ti]
          = Some \<lparr>choices = W, shown = run e W, run_at = now e\<rparr>"
    using ts ok rng cr d by (simp add: after_def W_def time_span_rendered length_options)
  have "run e W = run e w"
  proof (rule run_congr)
    show "selectbox time_span_options 1 (time_span_choice W) = selectbox time_span_options 1 (time_span_choice w)"
      by (simp add: W_def ti_def selectbox_def split: option.split)
    show "selectbox region_options 0 (region_choice W) = selectbox region_options 0 (region_choice w)"
      by (simp add: W_def ri_def selectbox_def split: option.split)
    show "selectbox event_type_options 0 (event_choice W) = selectbox event_type_options 0 (event_choice w)"
      by (simp add: W_def ei_def selectbox_def split: option.split)
    show "time_span_block (now e) W (selectbox time_span_options 1 (time_span_choice w))
          = time_span_block (now e) w (selectbox time_span_options 1 (time_span_choice w))"
      by (rule time_span_block_congr) (use d in \<open>simp_all add: W_def x_def y_def date_input_def\<close>)
  qed
  moreover have "(session_step e ^^ 6) s \<lparr>choices = W, shown = run e W, run_at = now e\<rparr>"
    using play_steps[OF play] by (simp add: numeral_eq_Suc)
  ultimately show ?thesis by auto
qed

section \<open>Witnesses\<close>

theorem any_configuration_reachable_witness:
  "reachable (first_load \<lparr>now = \<lparr>year = 2024, month = 4, day = 1, hour = 10, minute = 0, second = 0, microsecond = 0\<rparr>, search = (\<lambda>q::string. Inl (SearchError ''offline'') :: frame py)\<rparr>)
   \<and> widgets_ok \<lparr>time_span_choice = Some 3, start_choice = Some \<lparr>year = 2024, month = 1, day = 1\<rparr>, end_choice = None, region_choice = Some 2, event_choice = Some 1\<rparr>
   \<and> date_valid (now \<lparr>now = \<lparr>year = 2024, month = 4, day = 1, hour = 10, minute = 0, second = 0, microsecond = 0\<rparr>, search = (\<lambda>q::string. Inl (SearchError ''offline'') :: frame py)\<rparr>)
   \<and> dt_sub_days (now \<lparr>now = \<lparr>year = 2024, month = 4, day = 1, hour = 10, minute = 0, second = 0, microsecond = 0\<rparr>, search = (\<lambda>q::string. Inl (SearchError ''offline'') :: frame py)\<rparr>) 90 = Inr \<lparr>year = 2024, month = 1, day = 2, hour = 10, minute = 0, second = 0, microsecond = 0\<rparr>
   \<and> pred_option (in_picker_range (date_of \<lparr>year = 2024, month = 1, day = 2, hour = 10, minute = 0, second = 0, microsecond = 0\<rparr>)) (start_choice \<lparr>time_span_choice = Some 3, start_choice = Some \<lparr>year = 2024, month = 1, day = 1\<rparr>, end_choice = None, region_choice = Some 2, event_choice = Some 1\<rparr>)
   \<and> pred_option (in_picker_range (date_of (now \<lparr>now = \<lparr>year = 2024, month = 4, day = 1, hour = 10, minute = 0, second = 0, microsecond = 0\<rparr>, search = (\<lambda>q::string. Inl (SearchError ''offline'') :: frame py)\<rparr>))) (end_choice \<lparr>time_span_choice = Some 3, start_choice = Some \<lparr>year = 2024, month = 1, day = 1\<rparr>, end_choice = None, region_choice = Some 2, event_choice = Some 1\<rparr>)
   \<and> (\<exists>t. (session_step \<lparr>now = \<lparr>year = 2024, month = 4, day = 1, hour = 10, minute = 0, second = 0, microsecond = 0\<rparr>, search = (\<lambda>q::string. Inl (SearchError ''offline'') :: frame py)\<rparr> ^^ 6) (first_load \<lparr>now = \<lparr>year = 2024, month = 4, day = 1, hour = 10, minute = 0, second = 0, microsecond = 0\<rparr>, search = (\<lambda>q::string. Inl (SearchError ''offline'') :: frame py)\<rparr>) t \<and> shown t = run \<lparr>now = \<lparr>year = 2024, month = 4, day = 1, hour = 10, minute = 0, second = 0, microsecond = 0\<rparr>, search = (\<lambda>q::string. Inl (SearchError ''offline'') :: frame py)\<rparr> \<lparr>time_span_choice = Some 3, start_choice = Some \<lparr>year = 2024, month = 1, day = 1\<rparr>, end_choice = None, region_choice = Some 2, event_choice = Some 1\<rparr>)"
proof -
  have h1: "reachable (first_load \<lparr>now = \<lparr>year = 2024, month = 4, day = 1, hour = 10, minute = 0, second = 0, microsecond = 0\<rparr>, search = (\<lambda>q::string. Inl (SearchError ''offline'') :: frame py)\<rparr>)"
    by (rule reachable.start)
  have h2: "widgets_ok \<lparr>time_span_choice = Some 3, start_choice = Some \<lparr>year = 2024, month = 1, day = 1\<rparr>, end_choice = None, region_choice = Some 2, event_choice = Some 1\<rparr>"
    by (simp add: widgets_ok_def calendar_eval)
  have h3: "date_valid (now \<lparr>now = \<lparr>year = 2024, month = 4, day = 1, hour = 10, minute = 0, second = 0, microsecond = 0\<rparr>, search = (\<lambda>q::string. Inl (SearchError ''offline'') :: frame py)\<rparr>)"
    by (simp add: calendar_eval)
  have h4: "dt_sub_days (now \<lparr>now = \<lparr>year = 2024, month = 4, day = 1, hour = 10, minute = 0, second = 0, microsecond = 0\<rparr>, search = (\<lambda>q::string. Inl (SearchError ''offline'') :: frame py)\<rparr>) 90 = Inr \<lparr>year = 2024, month = 1, day = 2, hour = 10, minute = 0, second = 0, microsecond = 0\<rparr>"
    by (simp add: calendar_eval)
  have h5: "pred_option (in_picker_range (date_of \<lparr>year = 2024, month = 1, day = 2, hour = 10, minute = 0, second = 0, microsecond = 0\<rparr>)) (start_choice \<lparr>time_span_choice = Some 3, start_choice = Some \<lparr>year = 2024, month = 1, day = 1\<rparr>, end_choice = None, region_choice = Some 2, event_choice = Some 1\<rparr>)"
    by (simp add: in_picker_range_def date_le_def shift_years_def date_of_def)
  have h6: "pred_option (in_picker_range (date_of (now \<lparr>now = \<lparr>year = 2024, month = 4, day = 1, hour = 10, minute = 0, second = 0, microsecond = 0\<rparr>, search = (\<lambda>q::string. Inl (SearchError ''offline'') :: frame py)\<rparr>))) (end_choice \<lparr>time_span_choice = Some 3, start_choice = Some \<lparr>year = 2024, month = 1, day = 1\<rparr>, end_choice = None, region_choice = Some 2, event_choice = Some 1\<rparr>)"
    by simp
  show ?thesis
    using any_configuration_reachable[OF h1 h2 h3 h4 h5 h6] h1 h2 h3 h4 h5 h6 by blast
qed

end
