(* ===== verification/Spec2Isabelle.thy ===== *)
theory Spec2Isabelle
  imports Session
begin

text \<open>
  \<^bold>\<open>A verification library for the GDELT history dashboard (src/app.py).\<close>

  \<^emph>\<open>The program.\<close> \<open>src/app.py\<close> is a Streamlit script that Streamlit re-runs from top
  to bottom on every interaction.  It reads three sidebar selections (time span, region,
  event category, with two date pickers for a custom range), turns them into a date range
  and optional filter clauses, joins the clauses into a query string, passes it to the
  GDELT client's \<open>Search\<close>, and shows the result as a renamed nine-column table and a
  bar chart of the \<open>Event Root Code\<close> frequencies.  Exceptions inside the
  fetch-and-present block are caught and shown as two error messages; exceptions before
  it (date arithmetic) end the run.

  \<^emph>\<open>Theories, in dependency order.\<close>
  \<^item> \<open>Prelude\<close>: the exceptions that reach the script (\<open>exn\<close>), sequencing of
    fallible steps (\<open>bind_exn\<close>: an exception propagates), and the Python string
    operations used: \<open>str(n)\<close> (\<open>str_nat\<close>), zero padding (\<open>zpad\<close>),
    \<open>" ".join\<close> (\<open>py_join\<close>) and \<open>str.split\<close> (\<open>py_split\<close>), with their lemmas
    (digits only, read-back, split of a join).
  \<^item> \<open>Calendar\<close>: CPython's \<open>datetime\<close> arithmetic used on lines 16--36:
    \<open>_is_leap\<close>, \<open>_days_before_year\<close>, \<open>_ymd2ord\<close>, \<open>_ord2ymd\<close>, the
    \<open>date\<close>/\<open>datetime\<close> records, \<open>datetime.combine\<close>, \<open>dt - timedelta(days=k)\<close>
    (\<open>dt_sub_days\<close>, raising \<open>OverflowError\<close> out of range) and
    \<open>strftime('%Y%m%d')\<close>.  Main result: \<open>_ymd2ord (_ord2ymd n) = n\<close> for every
    integer \<open>n\<close>, by the 400/100/4/1-year cycle decomposition the code itself uses;
    hence subtracting \<open>k\<close> days moves the ordinal by exactly \<open>k\<close>.
  \<^item> \<open>Frame\<close>: the pandas operations on the fetched result (lines 91--114):
    \<open>df.empty\<close>, \<open>len\<close>, \<open>df[cols]\<close> with its \<open>KeyError\<close>, \<open>rename\<close>,
    \<open>df[c]\<close>, \<open>value_counts\<close>, and the display pipeline \<open>display_frame\<close>
    (lines 97--108).  Lemmas: the one-pass tally equals a reference count
    (\<open>count_list\<close> over first occurrences); value counts are exact, distinct, in
    descending order, and sum to the number of non-missing cells; the display table has
    the nine labels and the fetched rows, or the selection raises \<open>KeyError\<close>.
  \<^item> \<open>Widgets\<close>: the Streamlit elements a run renders, \<open>selectbox\<close> and
    \<open>date_input\<close> with their defaults, and the record of user choices.
  \<^item> \<open>Filters\<close>: lines 12--68, the time span block (\<open>time_span_block\<close>), the date
    strings (\<open>date_strings\<close>), \<open>region_filter\<close> and \<open>event_filter\<close>, each an
    \<open>if\<close>/\<open>elif\<close> chain over the selected string as in the source.
  \<^item> \<open>Query\<close>: lines 73--85, \<open>query_params\<close> and \<open>query_string\<close>, and the
    contract of the spec (\<open>spec_clauses\<close>: base clauses, region clause unless the whole
    country, event clause with the category's code prefixes unless all events).
  \<^item> \<open>Dashboard\<close>: lines 9--85 as \<open>script_head\<close> (it raises with the elements
    rendered so far, or yields the page so far and the query), lines 87--120
    (\<open>fetch_body\<close>, \<open>fetch_and_show\<close>), and the whole script as one run (\<open>run\<close>):
    the current time, the search function and the widget choices give either the page
    rendered (\<open>Finished\<close>) or an uncaught exception with the elements rendered before
    it (\<open>Crashed\<close>).
  \<^item> \<open>Ordinals\<close>: the calendar facts behind the dates of lines 16--36.
    \<open>_ord2ymd\<close>'s month estimate \<open>(n + 50) >> 5\<close> is at most one month ahead, so its
    result is a valid month and day; \<open>fromordinal\<close> and \<open>toordinal\<close> are inverse
    bijections between \<open>1 .. _MAXORDINAL\<close> and the valid dates; every \<open>datetime\<close>
    the \<open>timedelta\<close> subtraction returns is valid; and the \<open>%Y%m%d\<close> keys, read as
    numbers, order dates as the ordinals do.
  \<^item> \<open>Session\<close>: the rerun loop of spec section 5.  A session is the widget
    choices and the last run's result; a user change (\<open>interaction\<close>) is allowed only
    on a widget the page renders and with a value of its domain (\<open>offered\<close>: an
    index among the options, a valid date within ten years of the picker's value), and
    triggers a rerun of the whole script (\<open>session_step\<close>, one rule); \<open>reachable\<close>
    holds the sessions reachable from the first load, and \<open>play\<close> executes a list of
    changes.  Lemmas: a run depends on the widgets only through the values they return
    (\<open>run_congr\<close>), and every run renders the time-span selectbox.
  \<^item> \<open>Spec2Isabelle\<close> (this theory): the properties that span the components, stated
    on whole runs or on the filter blocks together.

  \<^emph>\<open>What the properties show.\<close> A run with valid widget values never raises once the
  current date is more than 180 days after 0001-01-01, and its page shows the query of
  the spec's contract followed by the fetch section for that query (C1); with a custom
  range the query carries exactly the two picked dates, \<open>DATE>\<close> the start and
  \<open>DATE<\<close> the end, in either order (C2).  The time-span block: presets go back exactly
  30/90/180 days (C3), a custom range runs from the start of the first to the end of the
  last chosen day (C4), every option sets \<open>start_date\<close> (C5), and a preset window is
  never contradictory (C22).  The fetch block: each outcome of the search and of the
  column selection and its page (C6--C9).  A run crashes exactly when the current
  ordinal is at most the span it subtracts, with only the header and the time-span
  selectbox rendered (C10).  The query string splits back into its clauses except for
  \<open>Region:Northern Ireland\<close>, for every category (C11, C12).  Calendar: the exact
  behaviour of \<open>dt - timedelta\<close> (C13, C20), the format of the date keys (C14, C21), and
  the ordinal bijection (C19).  pandas: \<open>value_counts\<close> equals a reference count and
  is exact, distinct and drops missing cells (C15--C18).  Sessions: any configuration
  the widgets can take, with dates inside Streamlit's picker ranges, is reached from
  any reachable session in six changes (C23).  Properties with hypotheses have
  witnesses that evaluate the model on concrete dates and frames by \<open>simp\<close> (the
  \<open>calendar_eval\<close> bundle and the \<open>py_simps\<close> rules of the prelude).

  \<^emph>\<open>Findings.\<close> The \<open>KeyError\<close> of a result without the nine columns is caught
  like a fetch failure, although the spec calls it uncaught (C7); a failed fetch shows two
  error messages, the spec says one (C6); the Northern Ireland clause contains a space
  (C12); the fallback branch of lines 34--36 is dead (C5); a reversed custom range is
  sent unchecked (C2) and an overflowing date is not handled (C10), a custom range
  crashing within 90 days of 0001-01-01 even with both dates chosen, because the start
  picker's default is computed first; missing root codes are dropped from the chart
  (C18); and the category codes follow neither CAMEO's protest root (14) nor its
  public-statement root (01): the contract of C1 asks \<open>17*\<close>, CAMEO's coercion, for
  Protests.

  \<^emph>\<open>Not modelled.\<close> Streamlit's rendering and layout (a run yields the list of
  elements it renders, not pixels); the GDELT client's network protocol and file parsing
  (the search is a parameter that returns a frame or raises; a call that never returns,
  which spec section 5 allows, is outside the model); \<open>datetime.now()\<close> (the current
  time is a parameter of a run); pandas frames with duplicate column labels (the model's
  frames have distinct labels, as GDELT results do); and the message pandas gives when
  none of the requested columns exists (\<open>None of [Index([...])] are in the
  [columns]\<close>, whose \<open>Index\<close> rendering depends on pandas' display options): the model
  renders every missing-column \<open>KeyError\<close> as \<open>[...] not in index\<close>, the message for
  some missing columns.  \<open>strftime('%Y')\<close> is modelled zero-padded to four digits, as
  current CPython prints it; older builds on glibc print years below 1000 unpadded.
  The date pickers' ranges (\<open>value\<close> \<open>+/-\<close> 10 years) are modelled where they
  matter, in the session's \<open>offered\<close>; \<open>widgets_ok\<close> admits every valid date,
  which only widens the universally quantified properties that assume it; and
  Streamlit's own \<open>ValueError\<close> when a range bound falls outside years 1..9999 (a
  current date within ten years of either end) is not modelled.  In sessions, Streamlit's deletion
  of the state of widgets a run does not render (the custom dates after switching to a
  preset) is not modelled; the spec only says that widget state persists, and a session
  keeps every choice.  No fuel is needed: every function of the model is total and
  structurally recursive or non-recursive, and the session's loop is a relation.  Apart from the construction of
  the client (line 7) and the unused \<open>country_code\<close> (line 42), every line of
  \<open>src/app.py\<close> is translated by a definition of the library.  The one bound chosen is the six changes of
  C23: one per widget, plus the first switch to the custom range, because only that
  range renders the date pickers; the 90 days required of the current date are what
  the start picker's default subtracts.
\<close>

section \<open>The query window of a preset time span\<close>

text \<open>
  C22: For a preset time span and a current date far enough from 0001-01-01, the block that
  builds the query bounds returns, and the \<open>DATE>\<close> key is strictly below the \<open>DATE<\<close> key
  when both are read as the decimal numbers GDELT compares: unlike a custom range (C2),
  a preset never produces a contradictory window.
\<close>

theorem preset_query_bounds_ordered:
  assumes "(sel = ''Last Month'' \<and> k = 30) \<or> (sel = ''Last 3 Months'' \<and> k = 90)
           \<or> (sel = ''Last 6 Months'' \<and> k = 180)"
    and "date_valid t0" and "k < toordinal t0"
  shows "\<exists>sd pickers s_str e_str. time_span_block t0 w sel = Inr (sd, t0, pickers)
           \<and> date_strings sd t0 = Inr (s_str, e_str) \<and> read_nat s_str < read_nat e_str"
proof -
  have k: "0 < k" using assms(1) by auto
  obtain s where s: "dt_sub_days t0 k = Inr s" "toordinal s = toordinal t0 - k"
    using dt_sub_days_valid[OF assms(2) _ assms(3)] k by (metis less_imp_le)
  have vs: "date_valid (s :: datetime)" by (rule date_valid_dt_sub_days(1)[OF s(1)])
  have "toordinal s < toordinal t0" using s(2) k by simp
  then have lex: "year s < year t0 \<or> (year s = year t0 \<and> (month s < month t0
                    \<or> (month s = month t0 \<and> day s < day t0)))"
    using toordinal_less_iff[OF vs assms(2)] by simp
  have b: "day s \<le> 31" "day t0 \<le> 31"
    using date_valid_fields[OF vs] date_valid_fields[OF assms(2)]
      days_in_month_le_31[of "month s" "year s"] days_in_month_le_31[of "month t0" "year t0"]
    by simp_all
  have "int (read_nat (strftime_Ymd s)) < int (read_nat (strftime_Ymd t0))"
    unfolding read_nat_strftime_Ymd[OF vs] read_nat_strftime_Ymd[OF assms(2)]
    using key_order[of "month s" "day s" "month t0" "day t0" "year s" "year t0"] lex b
      date_valid_fields[OF vs] date_valid_fields[OF assms(2)]
    by simp
  then show ?thesis
    using s(1) by (simp add: time_span_block_preset[OF assms(1)] date_strings_Some)
qed

section \<open>When a run crashes\<close>

text \<open>
  C10: The exact error boundary of a run.  With valid widget values and a valid current date,
  the run raises the uncaught \<open>OverflowError\<close> exactly when the current date's ordinal is at
  most the number of days the selected time span subtracts (30, 90 or 180; 90 for a custom
  range, whose start picker default is computed first), and then the page holds only the
  header and the time-span selectbox; otherwise the run finishes.
\<close>

theorem run_overflow_boundary:
  assumes "widgets_ok w" and "date_valid (now e)"
  shows "let sel = selectbox time_span_options 1 (time_span_choice w);
             k = (if sel = ''Last Month'' then 30 else if sel = ''Last 6 Months'' then 180 else (90::int))
         in if toordinal (now e) \<le> k
            then run e w = Crashed OverflowError [SidebarHeader ''Filters'', SidebarSelectbox ''Time Span'' sel]
            else (\<exists>page. run e w = Finished page)"
proof -
  define sel where "sel = selectbox time_span_options 1 (time_span_choice w)"
  define k where "k = (if sel = ''Last Month'' then 30 else if sel = ''Last 6 Months'' then 180 else (90::int))"
  have "sel \<in> set time_span_options"
    using widgets_ok_selections(1)[OF assms(1)] by (simp add: sel_def)
  then have cases: "(sel = ''Last Month'' \<and> k = 30) \<or> (sel = ''Last 3 Months'' \<and> k = 90)
                    \<or> (sel = ''Last 6 Months'' \<and> k = 180) \<or> (sel = ''Custom Date Range'' \<and> k = 90)"
    by (auto simp: time_span_options_cases k_def)
  have blk_err: "time_span_block (now e) w sel = Inl ex" if "dt_sub_days (now e) k = Inl ex" for ex
    using cases that by (elim disjE conjE) (simp_all add: time_span_block_def)
  have blk_ok: "\<exists>sd ed pk. time_span_block (now e) w sel = Inr (Some sd, ed, pk)"
    if "dt_sub_days (now e) k = Inr d" for d
    using cases that by (elim disjE conjE) (simp_all add: time_span_block_def Let_def)
  have "if toordinal (now e) \<le> k
        then run e w = Crashed OverflowError [SidebarHeader ''Filters'', SidebarSelectbox ''Time Span'' sel]
        else (\<exists>page. run e w = Finished page)"
  proof (cases "toordinal (now e) \<le> k")
    case True
    then have "dt_sub_days (now e) k = Inl OverflowError"
      by (simp add: dt_sub_days_def Let_def)
    then have "run e w = Crashed OverflowError [SidebarHeader ''Filters'', SidebarSelectbox ''Time Span'' sel]"
      using blk_err by (simp add: run_def script_head_def Let_def sel_def)
    then show ?thesis using True by simp
  next
    case False
    have "0 \<le> k" using cases by auto
    then obtain d where "dt_sub_days (now e) k = Inr d"
      using dt_sub_days_valid[OF assms(2)] False by (metis not_le)
    then obtain sd ed pk where "time_span_block (now e) w sel = Inr (Some sd, ed, pk)"
      using blk_ok by blast
    then have "\<exists>page. run e w = Finished page"
      by (simp add: run_def script_head_def Let_def sel_def date_strings_Some)
    then show ?thesis using False by simp
  qed
  then show ?thesis
    unfolding Let_def sel_def[symmetric] k_def[symmetric] .
qed

theorem preset_query_bounds_ordered_witness:
  "((''Last Month'' = ''Last Month'' \<and> (30::int) = 30) \<or> (''Last Month'' = ''Last 3 Months'' \<and> (30::int) = 90)
     \<or> (''Last Month'' = ''Last 6 Months'' \<and> (30::int) = 180))
   \<and> date_valid \<lparr>year = 2024, month = 4, day = 1, hour = 10, minute = 0, second = 0, microsecond = 0\<rparr>
   \<and> 30 < toordinal \<lparr>year = 2024, month = 4, day = 1, hour = 10, minute = 0, second = 0, microsecond = 0\<rparr>
   \<and> (\<exists>sd pickers s_str e_str.
        time_span_block \<lparr>year = 2024, month = 4, day = 1, hour = 10, minute = 0, second = 0, microsecond = 0\<rparr>
          untouched ''Last Month''
        = Inr (sd, \<lparr>year = 2024, month = 4, day = 1, hour = 10, minute = 0, second = 0, microsecond = 0\<rparr>, pickers)
        \<and> date_strings sd \<lparr>year = 2024, month = 4, day = 1, hour = 10, minute = 0, second = 0, microsecond = 0\<rparr>
          = Inr (s_str, e_str)
        \<and> read_nat s_str < read_nat e_str)"
proof -
  have h1: "(''Last Month'' = ''Last Month'' \<and> (30::int) = 30) \<or> (''Last Month'' = ''Last 3 Months'' \<and> (30::int) = 90)
     \<or> (''Last Month'' = ''Last 6 Months'' \<and> (30::int) = 180)" by simp
  have h2: "date_valid \<lparr>year = 2024, month = 4, day = 1, hour = 10, minute = 0, second = 0, microsecond = 0\<rparr>"
    by (simp add: calendar_eval)
  have h3: "30 < toordinal \<lparr>year = 2024, month = 4, day = 1, hour = 10, minute = 0, second = 0, microsecond = 0\<rparr>"
    by (simp add: calendar_eval)
  show ?thesis using preset_query_bounds_ordered[OF h1 h2 h3, of untouched] h1 h2 h3 by blast
qed

theorem run_overflow_boundary_witness:
  "widgets_ok (untouched\<lparr>time_span_choice := Some 3\<rparr>)
   \<and> date_valid \<lparr>year = 1, month = 3, day = 31, hour = 0, minute = 0, second = 0, microsecond = 0\<rparr>
   \<and> run \<lparr>now = \<lparr>year = 1, month = 3, day = 31, hour = 0, minute = 0, second = 0, microsecond = 0\<rparr>,
          search = (\<lambda>q::string. Inl (SearchError ''offline'') :: frame py)\<rparr> (untouched\<lparr>time_span_choice := Some 3\<rparr>)
     = Crashed OverflowError [SidebarHeader ''Filters'', SidebarSelectbox ''Time Span'' ''Custom Date Range'']"
proof -
  have h1: "widgets_ok (untouched\<lparr>time_span_choice := Some 3\<rparr>)"
    by (simp add: widgets_ok_def untouched_def)
  have h2: "date_valid (now \<lparr>now = \<lparr>year = 1, month = 3, day = 31, hour = 0, minute = 0, second = 0, microsecond = 0\<rparr>,
          search = (\<lambda>q::string. Inl (SearchError ''offline'') :: frame py)\<rparr>)"
    by (simp add: calendar_eval)
  have sel: "selectbox time_span_options 1 (time_span_choice (untouched\<lparr>time_span_choice := Some 3\<rparr>)) = ''Custom Date Range''"
    by (simp add: selectbox_def time_span_options_def)
  have ord: "toordinal \<lparr>year = 1, month = 3, day = 31, hour = 0, minute = 0, second = 0, microsecond = 0\<rparr> = (90::int)"
    by (simp add: calendar_eval)
  show ?thesis
    using run_overflow_boundary[OF h1 h2] h1 h2 sel ord by (simp add: Let_def)
qed

end
